theory Spec2Isabelle
  imports Complex_Main "HOL-Library.Sublist"
begin

section \<open>JavaScript values\<close>

text \<open>
  Strings are lists of code units below 256 (\<^typ>\<open>string\<close>). An optional property is a
  \<^typ>\<open>string option\<close>: \<open>None\<close> is \<open>undefined\<close>. A string is truthy when it is defined and
  not empty.
\<close>

definition truthy :: "string option \<Rightarrow> bool" where
  "truthy v = (case v of None \<Rightarrow> False | Some s \<Rightarrow> s \<noteq> [])"

text \<open>A thrown value is an \<open>Error\<close> object; only its \<open>message\<close> is ever read.\<close>

datatype js_error = Error (message: string)

text \<open>
  The quotient of two array lengths. The rounding of the IEEE double is left out: a finite
  quotient is kept as the exact rational. Division by zero is as in JavaScript:
  \<open>0 / 0\<close> is \<open>NaN\<close> and \<open>n / 0\<close> is \<open>Infinity\<close> for positive \<open>n\<close>.
\<close>

datatype js_number = Num rat | PosInfinity | NaN

definition js_div :: "nat \<Rightarrow> nat \<Rightarrow> js_number" where
  "js_div a b =
     (if b = 0 then (if a = 0 then NaN else PosInfinity)
      else Num (rat_of_nat a / rat_of_nat b))"

text \<open>
  Number to string, for an integer that a double holds exactly (an array length, an index):
  the decimal numeral, which is what a template literal does with \<open>${n}\<close>.
\<close>

fun show_nat :: "nat \<Rightarrow> string" where
  "show_nat n =
     (if n < 10 then [''0123456789'' ! n]
      else show_nat (n div 10) @ [''0123456789'' ! (n mod 10)])"

declare show_nat.simps [simp del]

definition show_int :: "int \<Rightarrow> string" where
  "show_int i = (if i < 0 then ''-'' @ show_nat (nat (- i)) else show_nat (nat i))"

text \<open>
  \<open>String.prototype.trim\<close>: white space and line terminators are dropped at both ends. In
  the range of code units below 256 these are tab, line feed, vertical tab, form feed,
  carriage return, space and the no-break space.
\<close>

definition is_js_whitespace :: "char \<Rightarrow> bool" where
  "is_js_whitespace c =
     (c \<in> {CHR 0x09, CHR 0x0A, CHR 0x0B, CHR 0x0C, CHR 0x0D, CHR 0x20, CHR 0xA0})"

definition trim :: "string \<Rightarrow> string" where
  "trim s = rev (dropWhile is_js_whitespace (rev (dropWhile is_js_whitespace s)))"

section \<open>The provider\<close>

datatype aspect_ratio = Ratio_16_9 | Ratio_9_16 | Ratio_1_1

fun ratio_str :: "aspect_ratio \<Rightarrow> string" where
  "ratio_str Ratio_16_9 = ''16:9''"
| "ratio_str Ratio_9_16 = ''9:16''"
| "ratio_str Ratio_1_1 = ''1:1''"

text \<open>A part of a prompt: \<open>{media: {url}}\<close> or \<open>{text}\<close>.\<close>

datatype part = Media string | Text string

record gen_request =
  req_model :: string
  req_system :: string
  req_prompt :: "part list"

text \<open>
  The response of \<open>ai.generate\<close>: \<open>media?.url\<close>, \<open>text\<close> and \<open>output?.text\<close>.
\<close>

record gen_response =
  res_media :: "string option"
  res_text :: string
  res_output_text :: "string option"

text \<open>
  \<open>ai.generate\<close> is the external service. It is a parameter of every flow: given the number
  of calls the running flow has made before, and the request, it throws (\<open>Inl\<close>) or returns a
  response (\<open>Inr\<close>). The call number lets the same request succeed once and fail the next time.
  A flow returns the requests it has sent, in order, with its outcome.
\<close>

type_synonym provider = "nat \<Rightarrow> gen_request \<Rightarrow> js_error + gen_response"

type_synonym 'a flow_result = "gen_request list \<times> (js_error + 'a)"

definition media_part :: "string option \<Rightarrow> part list" where
  "media_part img = (case img of None \<Rightarrow> [] | Some url \<Rightarrow> if url = [] then [] else [Media url])"

section \<open>The flow runner\<close>

text \<open>
  Modelled from the spec: the flow runner of the Genkit library (\<open>ai.defineFlow\<close>), which is
  not part of the repository. It checks the input against the flow's \<open>inputSchema\<close> and
  throws before the flow's function runs when the check fails, so that an input the schema
  rejects reaches no provider call. When the function has returned, the runner checks the
  result against the flow's \<open>outputSchema\<close> and throws when that check fails; the requests
  of the function have been sent by then. The messages of the two errors are a parameter.

  A schema is the predicate of what it asks beyond the type of the value. The schemas of the
  optimizer, the generator and the editor, for input and for output, ask for nothing that the
  types do not give, so those three flows are their functions.
\<close>

datatype schema_check = InputCheck | OutputCheck

definition defineFlow ::
  "(schema_check \<Rightarrow> string) \<Rightarrow> ('i \<Rightarrow> bool) \<Rightarrow> ('o \<Rightarrow> bool) \<Rightarrow> ('i \<Rightarrow> 'o flow_result) \<Rightarrow>
     'i \<Rightarrow> 'o flow_result" where
  "defineFlow validation_message inputSchema outputSchema body input =
     (if inputSchema input
      then
        case body input of
          (calls, Inr result) \<Rightarrow>
            if outputSchema result then (calls, Inr result)
            else (calls, Inl (Error (validation_message OutputCheck)))
        | (calls, Inl e) \<Rightarrow> (calls, Inl e)
      else ([], Inl (Error (validation_message InputCheck))))"

section \<open>Thumbnail generator\<close>

record GenerateThumbnailFromPromptInput =
  gen_prompt :: string
  gen_image1 :: "string option"
  gen_image2 :: "string option"
  gen_image3 :: "string option"
  gen_aspectRatio :: aspect_ratio

record GenerateThumbnailFromPromptOutput =
  thumbnail :: string

definition generate_system :: "aspect_ratio \<Rightarrow> string" where
  "generate_system r =
     ''You are an expert image generator.\<newline>'' @
     (if r = Ratio_9_16
      then ''You MUST generate an image with an aspect ratio of EXACTLY 9:16 (vertical). Do not add any padding or black bars. Do NOT crop or cut any text or subjects; instead, scale and reposition elements so that all content remains fully inside the 9:16 frame with comfortable safe margins.''
      else ''You MUST generate an image with an aspect ratio of EXACTLY '' @ ratio_str r @ ''. Do not add any padding or black bars. Crop the image to fit the requested aspect ratio if necessary.'') @
     ''\<newline>''"

definition generate_request :: "GenerateThumbnailFromPromptInput \<Rightarrow> gen_request" where
  "generate_request input =
     \<lparr>req_model = ''googleai/gemini-2.5-flash-image-preview'',
      req_system = generate_system (gen_aspectRatio input),
      req_prompt =
        media_part (gen_image1 input) @ media_part (gen_image2 input) @ media_part (gen_image3 input) @
        [Text (''User prompt: '' @ gen_prompt input)]\<rparr>"

definition generateThumbnailFromPromptFlow ::
  "provider \<Rightarrow> GenerateThumbnailFromPromptInput \<Rightarrow> GenerateThumbnailFromPromptOutput flow_result" where
  "generateThumbnailFromPromptFlow ai input =
     (let req = generate_request input in
      case ai 0 req of
        Inl e \<Rightarrow> ([req], Inl e)
      | Inr response \<Rightarrow>
          (case res_media response of
             None \<Rightarrow> ([req], Inl (Error ''Image generation did not return an image.''))
           | Some url \<Rightarrow>
               if url = [] then ([req], Inl (Error ''Image generation did not return an image.''))
               else ([req], Inr \<lparr>thumbnail = url\<rparr>)))"

definition generateThumbnailFromPrompt ::
  "provider \<Rightarrow> GenerateThumbnailFromPromptInput \<Rightarrow> GenerateThumbnailFromPromptOutput flow_result" where
  "generateThumbnailFromPrompt ai input = generateThumbnailFromPromptFlow ai input"

section \<open>Iterative editor\<close>

record IterativelyEditThumbnailInput =
  edit_baseImage :: string
  edit_prompt :: string
  edit_aspectRatio :: aspect_ratio

record IterativelyEditThumbnailOutput =
  editedThumbnail :: string

definition edit_system :: "aspect_ratio \<Rightarrow> string" where
  "edit_system r =
     ''You are an expert image editor.\<newline>'' @
     (if r = Ratio_9_16
      then ''You MUST edit the image to have an aspect ratio of EXACTLY 9:16 (vertical). Do not add any padding or black bars. Do NOT crop or cut any text or subjects; instead, scale and reposition elements so that all content remains fully inside the 9:16 frame with comfortable safe margins.''
      else ''You MUST edit the image to have an aspect ratio of EXACTLY '' @ ratio_str r @ ''. Do not add any padding or black bars. Crop the image to fit the requested aspect ratio if necessary.'') @
     ''\<newline>''"

definition edit_request :: "IterativelyEditThumbnailInput \<Rightarrow> gen_request" where
  "edit_request input =
     \<lparr>req_model = ''googleai/gemini-2.5-flash-image-preview'',
      req_system = edit_system (edit_aspectRatio input),
      req_prompt = [Media (edit_baseImage input), Text (''User edit prompt: '' @ edit_prompt input)]\<rparr>"

definition iterativelyEditThumbnailFlow ::
  "provider \<Rightarrow> IterativelyEditThumbnailInput \<Rightarrow> IterativelyEditThumbnailOutput flow_result" where
  "iterativelyEditThumbnailFlow ai input =
     (let req = edit_request input in
      case ai 0 req of
        Inl e \<Rightarrow> ([req], Inl e)
      | Inr response \<Rightarrow>
          (case res_media response of
             None \<Rightarrow> ([req], Inl (Error ''Failed to generate or edit thumbnail.''))
           | Some url \<Rightarrow>
               if url = [] then ([req], Inl (Error ''Failed to generate or edit thumbnail.''))
               else ([req], Inr \<lparr>editedThumbnail = url\<rparr>)))"

definition iterativelyEditThumbnail ::
  "provider \<Rightarrow> IterativelyEditThumbnailInput \<Rightarrow> IterativelyEditThumbnailOutput flow_result" where
  "iterativelyEditThumbnail ai input = iterativelyEditThumbnailFlow ai input"

section \<open>Prompt optimizer\<close>

record OptimizePromptInput =
  opt_prompt :: string
  opt_aspectRatio :: aspect_ratio
  opt_image1 :: "string option"
  opt_image2 :: "string option"
  opt_image3 :: "string option"

record OptimizePromptOutput =
  optimizedPrompt :: string

text \<open>\<open>[image1, image2, image3].filter(Boolean).map(url => ({media: {url}}))\<close>\<close>

definition imageParts :: "OptimizePromptInput \<Rightarrow> part list" where
  "imageParts input =
     media_part (opt_image1 input) @ media_part (opt_image2 input) @ media_part (opt_image3 input)"

definition providedImagesCount :: "OptimizePromptInput \<Rightarrow> nat" where
  "providedImagesCount input = length (imageParts input)"

definition assetContext :: "OptimizePromptInput \<Rightarrow> string" where
  "assetContext input =
     (if providedImagesCount input \<noteq> 0
      then ''The user also provided '' @ show_nat (providedImagesCount input) @ '' reference image'' @
           (if providedImagesCount input > 1 then ''s'' else []) @
           ''. Consider them when composing the scene.''
      else ''No reference images were provided.'')"

definition ratioRule :: "aspect_ratio \<Rightarrow> string" where
  "ratioRule r =
     (if r = Ratio_9_16
      then ''The final image MUST have an aspect ratio of exactly 9:16 (vertical). Do not add any padding or black bars. Do NOT crop or cut any text or subjects; instead, scale and reposition elements so that all content remains fully inside the 9:16 frame with comfortable safe margins.''
      else ''The final image MUST have an aspect ratio of exactly '' @ ratio_str r @ ''. Do not add any padding or black bars. Crop the image to fit the requested aspect ratio if necessary.'')"

definition optimize_system :: "aspect_ratio \<Rightarrow> string" where
  \<open>optimize_system r =
     ''You are an expert prompt engineer for a text-to-image model. Your task is to take a user's simple prompt and expand it into a rich, detailed, and creative prompt that will generate a visually stunning and effective thumbnail.\<newline>\<newline>You must follow these rules:\<newline>1.  **Incorporate Aspect Ratio**: '' @
     ratioRule r @
     ''\<newline>2.  **Describe Composition**: Detail the layout, including subject placement, background elements, and foreground details. Use terms like "rule of thirds," "leading lines," "depth of field," etc.\<newline>3.  **Specify Style**: Define the artistic style. Examples: "hyper-realistic photo," "cinematic 4k," "digital painting," "anime style," "vibrant illustration," "dramatic lighting."\<newline>4.  **Enhance Details**: Add specific details about colors, lighting, textures, and mood. Be descriptive and evocative.\<newline>5.  **Incorporate User Images**: If the user has provided reference images, your prompt should instruct the image model to incorporate them creatively into the final composition.\<newline>6.  **Keep it a single paragraph. Do not use lists or bullet points.**\<newline>7.  **Output only the prompt itself, with no extra text or explanation.**''\<close>

definition optimize_request :: "OptimizePromptInput \<Rightarrow> gen_request" where
  \<open>optimize_request input =
     \<lparr>req_model = ''googleai/gemini-2.5-flash'',
      req_system = optimize_system (opt_aspectRatio input),
      req_prompt =
        imageParts input @
        [Text (''User prompt: "'' @ opt_prompt input @ ''"\<newline>Aspect ratio: '' @
               ratio_str (opt_aspectRatio input) @ ''\<newline>'' @ assetContext input)]\<rparr>\<close>

text \<open>
  The fallback prompt. The source builds it twice, in the \<open>catch\<close> block and in the empty
  response branch, from the same template literal.
\<close>

definition fallback :: "OptimizePromptInput \<Rightarrow> string" where
  "fallback input =
     trim (''Create an eye-catching thumbnail. Aspect ratio: '' @ ratio_str (opt_aspectRatio input) @
           ''. Crop to fit with no padding or black bars. Emphasize strong composition (rule of thirds, leading lines), clear subject separation, and dramatic lighting. Reflect the following intent: '' @
           opt_prompt input @ ''. '' @
           (if providedImagesCount input \<noteq> 0
            then ''Incorporate the provided reference images appropriately.'' else []))"

text \<open>\<open>response.text || response.output?.text\<close>\<close>

definition finalText :: "gen_response \<Rightarrow> string option" where
  "finalText response =
     (if res_text response \<noteq> [] then Some (res_text response) else res_output_text response)"

definition optimizePromptFlow ::
  "provider \<Rightarrow> OptimizePromptInput \<Rightarrow> OptimizePromptOutput flow_result" where
  "optimizePromptFlow ai input =
     (let req = optimize_request input in
      case ai 0 req of
        Inl e \<Rightarrow> ([req], Inr \<lparr>optimizedPrompt = fallback input\<rparr>)
      | Inr response \<Rightarrow>
          (case finalText response of
             None \<Rightarrow> ([req], Inr \<lparr>optimizedPrompt = fallback input\<rparr>)
           | Some t \<Rightarrow>
               if t = [] then ([req], Inr \<lparr>optimizedPrompt = fallback input\<rparr>)
               else ([req], Inr \<lparr>optimizedPrompt = t\<rparr>)))"

definition optimizePrompt ::
  "provider \<Rightarrow> OptimizePromptInput \<Rightarrow> OptimizePromptOutput flow_result" where
  "optimizePrompt ai input = optimizePromptFlow ai input"

section \<open>Action handlers\<close>

text \<open>
  What an action returns: \<open>{success: true, ...}\<close> with the fields of the flow's output, or
  \<open>{success: false, error: message}\<close>. An action is paired with the requests its flow
  has sent. The flow that \<open>actions.ts\<close> imports and awaits is the first argument of the
  action.
\<close>

datatype 'a action_result = ActionSuccess 'a | ActionFailure string

fun success :: "'a action_result \<Rightarrow> bool" where
  "success (ActionSuccess result) = True"
| "success (ActionFailure msg) = False"

fun error :: "'a action_result \<Rightarrow> string option" where
  "error (ActionSuccess result) = None"
| "error (ActionFailure msg) = Some msg"

definition optimizePromptAction ::
  "(OptimizePromptInput \<Rightarrow> OptimizePromptOutput flow_result) \<Rightarrow> OptimizePromptInput \<Rightarrow>
     gen_request list \<times> string action_result" where
  "optimizePromptAction flow input =
     (case flow input of
        (calls, Inr result) \<Rightarrow>
          (calls, ActionSuccess (optimizedPrompt result))
      | (calls, Inl e) \<Rightarrow>
          (calls, ActionFailure (message e)))"

definition generateThumbnailAction ::
  "(GenerateThumbnailFromPromptInput \<Rightarrow> GenerateThumbnailFromPromptOutput flow_result) \<Rightarrow> GenerateThumbnailFromPromptInput \<Rightarrow>
     gen_request list \<times> string action_result" where
  "generateThumbnailAction flow input =
     (case flow input of
        (calls, Inr result) \<Rightarrow>
          (calls, ActionSuccess (thumbnail result))
      | (calls, Inl e) \<Rightarrow>
          (calls, ActionFailure (message e)))"

definition editThumbnailAction ::
  "(IterativelyEditThumbnailInput \<Rightarrow> IterativelyEditThumbnailOutput flow_result) \<Rightarrow> IterativelyEditThumbnailInput \<Rightarrow>
     gen_request list \<times> string action_result" where
  "editThumbnailAction flow input =
     (case flow input of
        (calls, Inr result) \<Rightarrow>
          (calls, ActionSuccess (editedThumbnail result))
      | (calls, Inl e) \<Rightarrow>
          (calls, ActionFailure (message e)))"

section \<open>Batch generator\<close>

datatype consistency_mode = Character | Style | Theme | NoConsistency

fun mode_str :: "consistency_mode \<Rightarrow> string" where
  "mode_str Character = ''character''"
| "mode_str Style = ''style''"
| "mode_str Theme = ''theme''"
| "mode_str NoConsistency = ''none''"

record BatchGenerateInput =
  prompts :: "string list"
  basePrompt :: string
  batch_aspectRatio :: aspect_ratio
  styleReference :: "string option"
  characterReference :: "string option"
  consistencyMode :: consistency_mode

text \<open>An entry \<open>{image, prompt, index}\<close> of the \<open>thumbnails\<close> array.\<close>

record batch_thumbnail =
  thumb_image :: string
  thumb_prompt :: string
  thumb_index :: nat

record BatchGenerateOutput =
  thumbnails :: "batch_thumbnail list"
  consistency_score :: js_number

definition consistencyInstruction :: "BatchGenerateInput \<Rightarrow> string" where
  "consistencyInstruction input =
     (if consistencyMode input = Character \<and> truthy (characterReference input)
      then '' CRITICAL: Maintain exact character consistency - same facial features, hair, clothing style, and character design as shown in the reference image. The character should be immediately recognizable across all variations.''
      else if consistencyMode input = Style \<and> truthy (styleReference input)
      then '' CRITICAL: Apply the exact artistic style, color palette, lighting technique, brushwork, and visual treatment from the reference image to create a cohesive series.''
      else if consistencyMode input = Theme
      then '' CRITICAL: Maintain thematic consistency - same mood, color scheme, composition style, and visual hierarchy across all thumbnails in this series.''
      else [])"

definition referenceImages :: "BatchGenerateInput \<Rightarrow> part list" where
  "referenceImages input =
     (if consistencyMode input = Character \<and> truthy (characterReference input)
      then media_part (characterReference input)
      else if consistencyMode input = Style \<and> truthy (styleReference input)
      then media_part (styleReference input)
      else [])"

definition enhancedPrompt :: "BatchGenerateInput \<Rightarrow> string \<Rightarrow> string" where
  "enhancedPrompt input prompt =
     basePrompt input @ '' '' @ prompt @ consistencyInstruction input @
     '' \<newline>      \<newline>      TECHNICAL REQUIREMENTS:\<newline>      - Aspect ratio: exactly '' @
     ratio_str (batch_aspectRatio input) @
     ''\<newline>      - Professional thumbnail quality with high visual impact\<newline>      - Clear focal point and readable text elements\<newline>      - Consistent branding and style throughout the series\<newline>      - Optimized for '' @
     (if batch_aspectRatio input = Ratio_16_9 then ''YouTube thumbnails''
      else if batch_aspectRatio input = Ratio_9_16 then ''vertical social media''
      else ''square social posts'')"

definition batch_system :: "BatchGenerateInput \<Rightarrow> string" where
  "batch_system input =
     ''You are an expert thumbnail designer specializing in creating consistent, high-impact visual series. You excel at maintaining visual consistency across multiple designs while ensuring each thumbnail is unique and engaging.\<newline>\<newline>'' @
     (if batch_aspectRatio input = Ratio_9_16
      then ''Generate vertical 9:16 thumbnails. Keep all text and visual elements fully inside the frame with comfortable safe margins. Do NOT crop or cut any content; instead, scale and reposition elements to fit the vertical format.''
      else ''Generate thumbnails with exact aspect ratio '' @ ratio_str (batch_aspectRatio input) @
           ''. Ensure all elements fit properly within the frame.'') @
     ''\<newline>\<newline>Focus on:\<newline>- Visual consistency '' @
     (if consistencyMode input \<noteq> NoConsistency
      then ''('' @ mode_str (consistencyMode input) @ '' consistency is CRITICAL)'' else []) @
     ''\<newline>- High contrast and readability\<newline>- Professional design quality\<newline>- Thumbnail-optimized composition\<newline>- Clear visual hierarchy''"

definition batch_request :: "BatchGenerateInput \<Rightarrow> string \<Rightarrow> gen_request" where
  "batch_request input prompt =
     \<lparr>req_model = ''googleai/gemini-2.5-flash-image-preview'',
      req_system = batch_system input,
      req_prompt = referenceImages input @ [Text (enhancedPrompt input prompt)]\<rparr>"

text \<open>
  The body of the \<open>try\<close> in iteration \<open>i\<close>: the entries it pushes to \<open>thumbnails\<close>. A call
  that throws is caught and pushes nothing, as does a response without a media URL.
\<close>

definition batch_item :: "provider \<Rightarrow> BatchGenerateInput \<Rightarrow> nat \<Rightarrow> batch_thumbnail list" where
  "batch_item ai input i =
     (let prompt = prompts input ! i in
      case ai i (batch_request input prompt) of
        Inl e \<Rightarrow> []
      | Inr response \<Rightarrow>
          (case res_media response of
             None \<Rightarrow> []
           | Some url \<Rightarrow>
               if url = [] then []
               else [\<lparr>thumb_image = url, thumb_prompt = prompt, thumb_index = i\<rparr>]))"

text \<open>
  The \<open>for\<close> loop from \<open>i\<close> on. Every iteration makes one call, so iteration \<open>i\<close> makes call
  number \<open>i\<close> of the flow.
\<close>

function batch_loop ::
  "provider \<Rightarrow> BatchGenerateInput \<Rightarrow> nat \<Rightarrow> gen_request list \<Rightarrow> batch_thumbnail list \<Rightarrow>
     gen_request list \<times> batch_thumbnail list" where
  "batch_loop ai input i calls thumbs =
     (if i < length (prompts input)
      then batch_loop ai input (i + 1)
             (calls @ [batch_request input (prompts input ! i)])
             (thumbs @ batch_item ai input i)
      else (calls, thumbs))"
  by pat_completeness auto
termination
  by (relation "measure (\<lambda>(ai, input, i, calls, thumbs). length (prompts input) - i)") auto

declare batch_loop.simps [simp del]

text \<open>The function given to \<open>ai.defineFlow\<close>: the loop, then the score.\<close>

definition batchGenerateFlow_body ::
  "provider \<Rightarrow> BatchGenerateInput \<Rightarrow> BatchGenerateOutput flow_result" where
  "batchGenerateFlow_body ai input =
     (case batch_loop ai input 0 [] [] of
        (calls, thumbs) \<Rightarrow>
          (calls,
           Inr \<lparr>thumbnails = thumbs,
                consistency_score = js_div (length thumbs) (length (prompts input))\<rparr>))"

text \<open>
  The output schema. The strings, the array and the index are carried by the types; what is
  left is \<open>consistency_score: z.number()\<close>, which the runner's validator refuses for
  \<open>NaN\<close> and for an infinity. The input schema asks for nothing beyond the types.
\<close>

definition BatchGenerateOutputSchema :: "BatchGenerateOutput \<Rightarrow> bool" where
  "BatchGenerateOutputSchema result =
     (case consistency_score result of Num q \<Rightarrow> True | PosInfinity \<Rightarrow> False | NaN \<Rightarrow> False)"

definition batchGenerateFlow ::
  "(schema_check \<Rightarrow> string) \<Rightarrow> provider \<Rightarrow> BatchGenerateInput \<Rightarrow>
     BatchGenerateOutput flow_result" where
  "batchGenerateFlow validation_message ai =
     defineFlow validation_message (\<lambda>input. True) BatchGenerateOutputSchema
       (batchGenerateFlow_body ai)"

definition batchGenerateThumbnails ::
  "(schema_check \<Rightarrow> string) \<Rightarrow> provider \<Rightarrow> BatchGenerateInput \<Rightarrow>
     BatchGenerateOutput flow_result" where
  "batchGenerateThumbnails validation_message ai input = batchGenerateFlow validation_message ai input"

definition batchGenerateAction ::
  "(BatchGenerateInput \<Rightarrow> BatchGenerateOutput flow_result) \<Rightarrow> BatchGenerateInput \<Rightarrow>
     gen_request list \<times> BatchGenerateOutput action_result" where
  "batchGenerateAction flow input =
     (case flow input of
        (calls, Inr result) \<Rightarrow> (calls, ActionSuccess result)
      | (calls, Inl e) \<Rightarrow>
          (calls, ActionFailure (message e)))"

section \<open>Intelligent fusion\<close>

datatype fusion_style = Seamless | Collage | Overlay | Blend | Composite

fun style_str :: "fusion_style \<Rightarrow> string" where
  "style_str Seamless = ''seamless''"
| "style_str Collage = ''collage''"
| "style_str Overlay = ''overlay''"
| "style_str Blend = ''blend''"
| "style_str Composite = ''composite''"

datatype creativity_level = Conservative | Balanced | Creative | Experimental

fun creativity_str :: "creativity_level \<Rightarrow> string" where
  "creativity_str Conservative = ''conservative''"
| "creativity_str Balanced = ''balanced''"
| "creativity_str Creative = ''creative''"
| "creativity_str Experimental = ''experimental''"

text \<open>
  \<open>dominantImage\<close> is \<open>z.number().optional()\<close>: a JavaScript number, which is an IEEE
  double and may be a fraction. The type \<open>'n\<close> of the numbers that pass \<open>z.number()\<close> is a
  parameter, and so are the two operations of the language that the flow applies to such a
  number: \<open>d + 1\<close>, which rounds, and the conversion to a string that a template literal does
  with \<open>${d}\<close>.
\<close>

record 'n js_numbers =
  plus_one :: "'n \<Rightarrow> 'n"
  number_to_string :: "'n \<Rightarrow> string"

text \<open>
  An instance, for concrete inputs: on the integers \<open>n\<close> with \<open>- 2^53 \<le> n\<close> and
  \<open>n < 2^53\<close> the two operations are exact, the sum is the integer sum and the string is the
  decimal numeral. Beyond that range a double rounds the sum and prints large values with an
  exponent, and this instance does not describe it.
\<close>

definition safe_integers :: "int js_numbers" where
  "safe_integers = \<lparr>plus_one = (\<lambda>n. n + 1), number_to_string = show_int\<rparr>"

record 'n IntelligentFusionInput =
  images :: "string list"
  fusionPrompt :: string
  fusion_aspectRatio :: aspect_ratio
  fusionStyle :: fusion_style
  dominantImage :: "'n option"
  creativityLevel :: creativity_level

record technical_details =
  primaryElements :: "string list"
  fusionTechnique :: string
  aspectRatioHandling :: string

record IntelligentFusionOutput =
  fusedImage :: string
  fusionDescription :: string
  technicalDetails :: technical_details

text \<open>
  The input schema. The enumerations and the string fields are carried by the types; what is
  left is \<open>z.array(z.string()).min(2).max(4)\<close> on \<open>images\<close>. Nothing constrains
  \<open>dominantImage\<close>. The output schema asks for nothing beyond the types.
\<close>

definition IntelligentFusionInputSchema :: "'n IntelligentFusionInput \<Rightarrow> bool" where
  "IntelligentFusionInputSchema input = (2 \<le> length (images input) \<and> length (images input) \<le> 4)"

definition analysisPrompt :: "'n IntelligentFusionInput \<Rightarrow> string" where
  "analysisPrompt input =
     ''Analyze these '' @ show_nat (length (images input)) @
     '' images and describe:\<newline>1. The main subject/content of each image\<newline>2. The artistic style and visual characteristics\<newline>3. The lighting and color palette\<newline>4. How they could be best combined for a '' @
     style_str (fusionStyle input) @
     '' fusion\<newline>5. Potential challenges in combining them\<newline>\<newline>Target fusion goal: '' @
     fusionPrompt input @ ''\<newline>Creativity level: '' @ creativity_str (creativityLevel input)"

definition analysis_request :: "'n IntelligentFusionInput \<Rightarrow> gen_request" where
  "analysis_request input =
     \<lparr>req_model = ''googleai/gemini-2.5-flash'',
      req_system = ''You are an expert visual analyst specializing in image composition and fusion techniques. Provide detailed, technical analysis for optimal image combination.'',
      req_prompt = map Media (images input) @ [Text (analysisPrompt input)]\<rparr>"

fun fusionInstructions :: "fusion_style \<Rightarrow> string" where
  "fusionInstructions Seamless = ''Create a seamless blend where all images flow naturally together with smooth transitions and unified lighting.''"
| "fusionInstructions Collage = ''Arrange the images in an artistic collage layout with clear boundaries but harmonious composition.''"
| "fusionInstructions Overlay = ''Layer the images with creative overlays, transparency effects, and depth to create visual interest.''"
| "fusionInstructions Blend = ''Blend the images together using advanced mixing techniques, creating new visual relationships between elements.''"
| "fusionInstructions Composite = ''Create a professional composite combining the best elements from each image into a cohesive new design.''"

fun creativityInstructions :: "creativity_level \<Rightarrow> string" where
  "creativityInstructions Conservative = ''Maintain the original character of each image while combining them respectfully.''"
| "creativityInstructions Balanced = ''Balance preservation of original elements with creative new combinations.''"
| "creativityInstructions Creative = ''Take creative liberties to produce something new and visually striking.''"
| "creativityInstructions Experimental = ''Push creative boundaries and experiment with unexpected combinations and effects.''"

definition dominantInstruction :: "'n js_numbers \<Rightarrow> 'n IntelligentFusionInput \<Rightarrow> string" where
  "dominantInstruction js input =
     (case dominantImage input of
        Some d \<Rightarrow>
          '' Use image '' @ number_to_string js (plus_one js d) @
          '' as the dominant base composition.''
      | None \<Rightarrow> [])"

text \<open>The fusion prompt, from the input and the text of the analysis response.\<close>

definition fusion_prompt_text ::
  "'n js_numbers \<Rightarrow> 'n IntelligentFusionInput \<Rightarrow> string \<Rightarrow> string" where
  "fusion_prompt_text js input analysis =
     fusionPrompt input @ ''\<newline>\<newline>FUSION SPECIFICATIONS:\<newline>- Style: '' @
     fusionInstructions (fusionStyle input) @ ''\<newline>- Creativity: '' @
     creativityInstructions (creativityLevel input) @ ''\<newline>- Aspect ratio: exactly '' @
     ratio_str (fusion_aspectRatio input) @ dominantInstruction js input @
     ''\<newline>- Ensure all elements work together harmoniously\<newline>- Maintain high visual quality and professional finish\<newline>\<newline>ANALYSIS CONTEXT: '' @
     analysis"

definition fusion_system :: "aspect_ratio \<Rightarrow> string" where
  "fusion_system r =
     ''You are a master digital artist specializing in intelligent image fusion. You excel at combining multiple images into cohesive, visually stunning compositions using advanced AI-guided techniques.\<newline>\<newline>'' @
     (if r = Ratio_9_16
      then ''Create a vertical 9:16 composition. Ensure all fused elements fit perfectly within the vertical frame with proper spacing and composition.''
      else ''Create a composition with exact aspect ratio '' @ ratio_str r @
           ''. Optimize the layout for this specific format.'') @
     ''\<newline>\<newline>Your expertise includes:\<newline>- Advanced composition techniques\<newline>- Seamless element integration  \<newline>- Professional color harmony\<newline>- Visual flow and hierarchy\<newline>- Technical precision in fusion''"

definition fusion_request ::
  "'n js_numbers \<Rightarrow> 'n IntelligentFusionInput \<Rightarrow> string \<Rightarrow> gen_request" where
  "fusion_request js input analysis =
     \<lparr>req_model = ''googleai/gemini-2.5-flash-image-preview'',
      req_system = fusion_system (fusion_aspectRatio input),
      req_prompt = map Media (images input) @ [Text (fusion_prompt_text js input analysis)]\<rparr>"

definition fusion_output :: "'n IntelligentFusionInput \<Rightarrow> string \<Rightarrow> IntelligentFusionOutput" where
  "fusion_output input url =
     \<lparr>fusedImage = url,
      fusionDescription =
        ''Successfully fused '' @ show_nat (length (images input)) @ '' images using '' @
        style_str (fusionStyle input) @ '' technique with '' @
        creativity_str (creativityLevel input) @ '' creativity level.'',
      technicalDetails =
        \<lparr>primaryElements =
           map (\<lambda>i. ''Elements from image '' @ show_nat (i + 1)) [0..<length (images input)],
         fusionTechnique = style_str (fusionStyle input),
         aspectRatioHandling =
           ''Optimized for '' @ ratio_str (fusion_aspectRatio input) @ '' format''\<rparr>\<rparr>"

text \<open>The function given to \<open>ai.defineFlow\<close>: the analysis call, then the fusion call.\<close>

definition intelligentFusionFlow_body ::
  "'n js_numbers \<Rightarrow> provider \<Rightarrow> 'n IntelligentFusionInput \<Rightarrow>
     IntelligentFusionOutput flow_result" where
  "intelligentFusionFlow_body js ai input =
     (let req1 = analysis_request input in
      case ai 0 req1 of
        Inl e \<Rightarrow> ([req1], Inl e)
      | Inr analysisResponse \<Rightarrow>
          (let req2 = fusion_request js input (res_text analysisResponse) in
           case ai 1 req2 of
             Inl e \<Rightarrow> ([req1, req2], Inl e)
           | Inr response \<Rightarrow>
               (case res_media response of
                  None \<Rightarrow> ([req1, req2], Inl (Error ''Intelligent fusion failed to generate image.''))
                | Some url \<Rightarrow>
                    if url = []
                    then ([req1, req2], Inl (Error ''Intelligent fusion failed to generate image.''))
                    else ([req1, req2], Inr (fusion_output input url)))))"

definition intelligentFusionFlow ::
  "(schema_check \<Rightarrow> string) \<Rightarrow> 'n js_numbers \<Rightarrow> provider \<Rightarrow> 'n IntelligentFusionInput \<Rightarrow>
     IntelligentFusionOutput flow_result" where
  "intelligentFusionFlow validation_message js ai =
     defineFlow validation_message IntelligentFusionInputSchema (\<lambda>result. True)
       (intelligentFusionFlow_body js ai)"

definition intelligentFusion ::
  "(schema_check \<Rightarrow> string) \<Rightarrow> 'n js_numbers \<Rightarrow> provider \<Rightarrow> 'n IntelligentFusionInput \<Rightarrow>
     IntelligentFusionOutput flow_result" where
  "intelligentFusion validation_message js ai input =
     intelligentFusionFlow validation_message js ai input"

definition intelligentFusionAction ::
  "('n IntelligentFusionInput \<Rightarrow> IntelligentFusionOutput flow_result) \<Rightarrow> 'n IntelligentFusionInput \<Rightarrow>
     gen_request list \<times> IntelligentFusionOutput action_result" where
  "intelligentFusionAction flow input =
     (case flow input of
        (calls, Inr result) \<Rightarrow> (calls, ActionSuccess result)
      | (calls, Inl e) \<Rightarrow>
          (calls, ActionFailure (message e)))"

section \<open>The page\<close>

text \<open>
  The state of the page component: one field for each \<open>useState\<close>, and the toasts shown so
  far. A handler is taken as one step from the state in which it starts to the state after its
  last update; \<open>Date.now()\<close> is a parameter.
\<close>

datatype ui_consistency_mode = UiCharacter | UiStyle | UiNone

record history_entry =
  h_prompt :: string
  h_image :: string
  h_timestamp :: nat
  h_aspectRatio :: aspect_ratio

record toast_message =
  toast_title :: string
  toast_description :: string

record page_state =
  ui_uploadedImages :: "string list"
  ui_prompt :: string
  ui_optimizedPrompt :: string
  ui_aspectRatio :: aspect_ratio
  ui_generatedThumbnail :: "string option"
  ui_editPrompt :: string
  ui_isOptimizing :: bool
  ui_isLoading :: bool
  ui_isEditing :: bool
  ui_generationHistory :: "history_entry list"
  ui_selectedStyleReference :: string
  ui_consistencyMode :: ui_consistency_mode
  ui_batchCount :: nat
  ui_currentVariation :: nat
  ui_toasts :: "toast_message list"

text \<open>The initial values of the \<open>useState\<close> calls.\<close>

definition initial_state :: page_state where
  "initial_state =
     \<lparr>ui_uploadedImages = [], ui_prompt = [], ui_optimizedPrompt = [], ui_aspectRatio = Ratio_1_1,
      ui_generatedThumbnail = None, ui_editPrompt = [], ui_isOptimizing = False,
      ui_isLoading = False, ui_isEditing = False, ui_generationHistory = [],
      ui_selectedStyleReference = [], ui_consistencyMode = UiNone, ui_batchCount = 1,
      ui_currentVariation = 0, ui_toasts = []\<rparr>"

definition MAX_IMAGES :: nat where
  "MAX_IMAGES = 3"

definition toast :: "string \<Rightarrow> string \<Rightarrow> page_state \<Rightarrow> page_state" where
  "toast title description s =
     s\<lparr>ui_toasts := ui_toasts s @ [\<lparr>toast_title = title, toast_description = description\<rparr>]\<rparr>"

text \<open>\<open>xs[i]\<close>, which is \<open>undefined\<close> out of range.\<close>

definition at_index :: "'a list \<Rightarrow> nat \<Rightarrow> 'a option" where
  "at_index xs i = (if i < length xs then Some (xs ! i) else None)"

text \<open>\<open>result.error || 'An unexpected error occurred. Please try again.'\<close>\<close>

definition error_description :: "string \<Rightarrow> string" where
  "error_description err =
     (if err \<noteq> [] then err else ''An unexpected error occurred. Please try again.'')"

text \<open>
  The files of the change event, each read to its data URI (\<open>Some\<close>) or failing to be read
  (\<open>None\<close>).
\<close>

definition handleImageChange :: "string option list \<Rightarrow> page_state \<Rightarrow> page_state" where
  "handleImageChange files s =
     (if int (length files) > int MAX_IMAGES - int (length (ui_uploadedImages s))
      then toast ''Too many images'' (''You can only upload up to '' @ show_nat MAX_IMAGES @ '' images in total.'') s
      else
        case those files of
          Some dataUris \<Rightarrow> s\<lparr>ui_uploadedImages := ui_uploadedImages s @ dataUris\<rparr>
        | None \<Rightarrow> toast ''Image Upload Failed'' ''There was an error reading one of the files.'' s)"

definition handleRemoveImage :: "nat \<Rightarrow> page_state \<Rightarrow> page_state" where
  "handleRemoveImage index s =
     s\<lparr>ui_uploadedImages :=
         map fst (filter (\<lambda>(x, i). i \<noteq> index)
                    (zip (ui_uploadedImages s) [0..<length (ui_uploadedImages s)]))\<rparr>"

definition handleOptimizePrompt :: "provider \<Rightarrow> page_state \<Rightarrow> page_state" where
  "handleOptimizePrompt ai s =
     (if ui_prompt s = []
      then toast ''Missing Prompt'' ''Please provide a prompt to optimize.'' s
      else
        case snd (optimizePromptAction (optimizePrompt ai)
                    \<lparr>opt_prompt = ui_prompt s, opt_aspectRatio = ui_aspectRatio s,
                     opt_image1 = at_index (ui_uploadedImages s) 0,
                     opt_image2 = at_index (ui_uploadedImages s) 1,
                     opt_image3 = at_index (ui_uploadedImages s) 2\<rparr>) of
          ActionSuccess optimized \<Rightarrow>
            s\<lparr>ui_optimizedPrompt := optimized, ui_generatedThumbnail := None,
              ui_isOptimizing := False\<rparr>
        | ActionFailure err \<Rightarrow>
            (toast ''Optimization Failed'' (error_description err) s)
              \<lparr>ui_optimizedPrompt := [], ui_generatedThumbnail := None, ui_isOptimizing := False\<rparr>)"

text \<open>The input that \<open>handleGenerate\<close> builds for the generator.\<close>

definition generate_input :: "page_state \<Rightarrow> GenerateThumbnailFromPromptInput" where
  "generate_input s =
     \<lparr>gen_prompt =
        ui_optimizedPrompt s @
        (if ui_consistencyMode s = UiCharacter \<and> ui_selectedStyleReference s \<noteq> []
         then '' Maintain character consistency with the reference image provided. Keep the same facial features, clothing style, and character design throughout.''
         else if ui_consistencyMode s = UiStyle \<and> ui_selectedStyleReference s \<noteq> []
         then '' Apply the artistic style, color palette, lighting, and visual treatment from the reference image while creating new content.''
         else []),
      gen_image1 =
        (if ui_selectedStyleReference s \<noteq> [] then Some (ui_selectedStyleReference s)
         else at_index (ui_uploadedImages s) 0),
      gen_image2 = at_index (ui_uploadedImages s) 1,
      gen_image3 = at_index (ui_uploadedImages s) 2,
      gen_aspectRatio = ui_aspectRatio s\<rparr>"

definition handleGenerate :: "provider \<Rightarrow> nat \<Rightarrow> page_state \<Rightarrow> page_state" where
  "handleGenerate ai now s =
     (if ui_optimizedPrompt s = []
      then toast ''Missing Optimized Prompt'' ''Please optimize a prompt before generating.'' s
      else
        case snd (generateThumbnailAction (generateThumbnailFromPrompt ai) (generate_input s)) of
          ActionSuccess thumb \<Rightarrow>
            s\<lparr>ui_generatedThumbnail := Some thumb,
              ui_generationHistory :=
                ui_generationHistory s @
                [\<lparr>h_prompt = ui_optimizedPrompt s, h_image = thumb, h_timestamp = now,
                  h_aspectRatio = ui_aspectRatio s\<rparr>],
              ui_isLoading := False\<rparr>
        | ActionFailure err \<Rightarrow>
            (toast ''Generation Failed'' (error_description err) s)
              \<lparr>ui_generatedThumbnail := None, ui_isLoading := False\<rparr>)"

definition handleEdit :: "provider \<Rightarrow> page_state \<Rightarrow> page_state" where
  "handleEdit ai s =
     (case (if ui_editPrompt s = [] then None else ui_generatedThumbnail s) of
        None \<Rightarrow> toast ''Missing Edit Prompt'' ''Please describe the changes you want to make.'' s
      | Some base \<Rightarrow>
          if base = []
          then toast ''Missing Edit Prompt'' ''Please describe the changes you want to make.'' s
          else
            case snd (editThumbnailAction (iterativelyEditThumbnail ai)
                        \<lparr>edit_baseImage = base, edit_prompt = ui_editPrompt s,
                         edit_aspectRatio = ui_aspectRatio s\<rparr>) of
              ActionSuccess thumb \<Rightarrow>
                s\<lparr>ui_generatedThumbnail := Some thumb, ui_editPrompt := [], ui_isEditing := False\<rparr>
            | ActionFailure err \<Rightarrow>
                (toast ''Edit Failed'' (error_description err) s)\<lparr>ui_isEditing := False\<rparr>)"

text \<open>\<open>handleDownload\<close> builds a link and clicks it; no state is set.\<close>

definition handleDownload :: "page_state \<Rightarrow> page_state" where
  "handleDownload s = s"

text \<open>
  What the user can do: one event for each handler that the rendered page binds. The
  \<open>Use Style\<close> button is rendered when \<open>generatedThumbnail\<close> is truthy; an entry of the
  history panel is one of the last six.
\<close>

datatype ui_event =
    ImageChange "string option list"
  | RemoveImage nat
  | SetConsistencyMode ui_consistency_mode
  | SetPrompt string
  | SetAspectRatio aspect_ratio
  | SetOptimizedPrompt string
  | SetEditPrompt string
  | ClickOptimize provider
  | ClickGenerate provider nat
  | ClickEdit provider
  | ClickUseStyle
  | ClickDownload
  | ClickHistoryEntry nat

fun handle :: "ui_event \<Rightarrow> page_state \<Rightarrow> page_state" where
  "handle (ImageChange files) s = handleImageChange files s"
| "handle (RemoveImage index) s = handleRemoveImage index s"
| "handle (SetConsistencyMode m) s = s\<lparr>ui_consistencyMode := m\<rparr>"
| "handle (SetPrompt v) s = s\<lparr>ui_prompt := v\<rparr>"
| "handle (SetAspectRatio r) s = s\<lparr>ui_aspectRatio := r\<rparr>"
| "handle (SetOptimizedPrompt v) s = s\<lparr>ui_optimizedPrompt := v\<rparr>"
| "handle (SetEditPrompt v) s = s\<lparr>ui_editPrompt := v\<rparr>"
| "handle (ClickOptimize ai) s = handleOptimizePrompt ai s"
| "handle (ClickGenerate ai now) s = handleGenerate ai now s"
| "handle (ClickEdit ai) s = handleEdit ai s"
| "handle ClickUseStyle s =
     (case ui_generatedThumbnail s of
        Some thumb \<Rightarrow> if thumb = [] then s else s\<lparr>ui_selectedStyleReference := thumb\<rparr>
      | None \<Rightarrow> s)"
| "handle ClickDownload s = handleDownload s"
| "handle (ClickHistoryEntry k) s =
     (case at_index (drop (length (ui_generationHistory s) - 6) (ui_generationHistory s)) k of
        Some item \<Rightarrow> s\<lparr>ui_selectedStyleReference := h_image item\<rparr>
      | None \<Rightarrow> s)"

section \<open>An empty provider response\<close>

lemma generate_flow_no_image:
  assumes "ai 0 (generate_request input) = Inr r" and "\<not> truthy (res_media r)"
  shows "generateThumbnailFromPromptFlow ai input =
           ([generate_request input], Inl (Error ''Image generation did not return an image.''))"
  using assms by (simp add: generateThumbnailFromPromptFlow_def truthy_def split: option.splits)

lemma edit_flow_no_image:
  assumes "ai 0 (edit_request input) = Inr r" and "\<not> truthy (res_media r)"
  shows "iterativelyEditThumbnailFlow ai input =
           ([edit_request input], Inl (Error ''Failed to generate or edit thumbnail.''))"
  using assms by (simp add: iterativelyEditThumbnailFlow_def truthy_def split: option.splits)

text \<open>
  C3. When the provider call of the thumbnail generator, or of the iterative editor, returns
  a response without a media URL (none, or an empty one), the flow throws its error and the
  action returns \<open>{success: false, error}\<close> with the message of that error; it never returns
  a success with empty image data. One request has been sent.
\<close>

theorem no_image_payload_is_explicit_error:
  "(ai 0 (generate_request gi) = Inr r \<and> \<not> truthy (res_media r) \<longrightarrow>
      generateThumbnailFromPrompt ai gi =
        ([generate_request gi], Inl (Error ''Image generation did not return an image.'')) \<and>
      generateThumbnailAction (generateThumbnailFromPrompt ai) gi =
        ([generate_request gi], ActionFailure ''Image generation did not return an image.'')) \<and>
   (ai 0 (edit_request ei) = Inr r \<and> \<not> truthy (res_media r) \<longrightarrow>
      iterativelyEditThumbnail ai ei =
        ([edit_request ei], Inl (Error ''Failed to generate or edit thumbnail.'')) \<and>
      editThumbnailAction (iterativelyEditThumbnail ai) ei =
        ([edit_request ei], ActionFailure ''Failed to generate or edit thumbnail.''))"
  by (simp add: generate_flow_no_image edit_flow_no_image generateThumbnailFromPrompt_def
      generateThumbnailAction_def iterativelyEditThumbnail_def editThumbnailAction_def)

theorem no_image_payload_is_explicit_error_witness:
  "\<not> truthy (res_media \<lparr>res_media = Some [], res_text = ''ok'', res_output_text = None\<rparr>) \<and>
   snd (generateThumbnailAction
      (generateThumbnailFromPrompt (\<lambda>n req. Inr \<lparr>res_media = Some [], res_text = ''ok'', res_output_text = None\<rparr>))
      \<lparr>gen_prompt = ''red car on a beach'', gen_image1 = None, gen_image2 = None, gen_image3 = None,
       gen_aspectRatio = Ratio_1_1\<rparr>) =
     ActionFailure ''Image generation did not return an image.'' \<and>
   snd (editThumbnailAction
      (iterativelyEditThumbnail (\<lambda>n req. Inr \<lparr>res_media = Some [], res_text = ''ok'', res_output_text = None\<rparr>))
      \<lparr>edit_baseImage = ''data:image/png;base64,AAAA'', edit_prompt = ''make it blue'',
       edit_aspectRatio = Ratio_9_16\<rparr>) =
     ActionFailure ''Failed to generate or edit thumbnail.''"
  using no_image_payload_is_explicit_error
    [of "\<lambda>n req. Inr \<lparr>res_media = Some [], res_text = ''ok'', res_output_text = None\<rparr>"
        "\<lparr>gen_prompt = ''red car on a beach'', gen_image1 = None, gen_image2 = None, gen_image3 = None,
          gen_aspectRatio = Ratio_1_1\<rparr>"
        "\<lparr>res_media = Some [], res_text = ''ok'', res_output_text = None\<rparr>"
        "\<lparr>edit_baseImage = ''data:image/png;base64,AAAA'', edit_prompt = ''make it blue'',
          edit_aspectRatio = Ratio_9_16\<rparr>"]
  by (simp add: truthy_def)

section \<open>The fallback of the prompt optimizer\<close>

lemma trim_end_keeps:
  assumes "ys \<noteq> []" and "\<not> P (last ys)" and "\<forall>z\<in>set zs. P z"
  shows "rev (dropWhile P (rev (ys @ zs))) = ys"
proof -
  have "dropWhile P (rev (ys @ zs)) = dropWhile P (rev ys)"
    using assms(3) by (simp add: dropWhile_append)
  also have "rev ys = last ys # rev (butlast ys)"
    using assms(1) by (cases ys rule: rev_cases) simp_all
  also have "dropWhile P (last ys # rev (butlast ys)) = last ys # rev (butlast ys)"
    using assms(2) by simp
  also have "rev (last ys # rev (butlast ys)) = ys"
    using assms(1) by simp
  finally show ?thesis by simp
qed

lemma trim_closed:
  assumes "xs \<noteq> []" and "\<not> is_js_whitespace (hd xs)"
    and "ys \<noteq> []" and "\<not> is_js_whitespace (last ys)"
    and "\<forall>z\<in>set zs. is_js_whitespace z"
  shows "trim (xs @ m @ ys @ zs) = xs @ m @ ys"
proof -
  have "dropWhile is_js_whitespace (xs @ m @ ys @ zs) = xs @ m @ ys @ zs"
    using assms(1,2) by (cases xs) simp_all
  moreover have "rev (dropWhile is_js_whitespace (rev ((xs @ m @ ys) @ zs))) = xs @ m @ ys"
    using assms(3,4,5) by (intro trim_end_keeps) simp_all
  ultimately show ?thesis by (simp add: trim_def)
qed

lemma fallback_closed_form:
  "fallback input =
     ''Create an eye-catching thumbnail. Aspect ratio: '' @ ratio_str (opt_aspectRatio input) @
     ''. Crop to fit with no padding or black bars. Emphasize strong composition (rule of thirds, leading lines), clear subject separation, and dramatic lighting. Reflect the following intent: '' @
     opt_prompt input @
     (if providedImagesCount input \<noteq> 0
      then ''. Incorporate the provided reference images appropriately.'' else ''.'')"
  (is "_ = ?A @ ?r @ ?B @ ?p @ ?tail")
proof (cases "providedImagesCount input \<noteq> 0")
  case True
  have "trim (?A @ (?r @ ?B @ ?p) @ ''. Incorporate the provided reference images appropriately.'' @ [])
        = ?A @ (?r @ ?B @ ?p) @ ''. Incorporate the provided reference images appropriately.''"
    by (rule trim_closed) (simp_all add: is_js_whitespace_def)
  with True show ?thesis by (simp add: fallback_def)
next
  case False
  have "trim (?A @ (?r @ ?B @ ?p) @ ''.'' @ '' '') = ?A @ (?r @ ?B @ ?p) @ ''.''"
    by (rule trim_closed) (simp_all add: is_js_whitespace_def)
  with False show ?thesis by (simp add: fallback_def)
qed

lemma optimize_flow_fallback:
  assumes "ai 0 (optimize_request input) = Inl e \<or>
           (\<exists>r. ai 0 (optimize_request input) = Inr r \<and> \<not> truthy (finalText r))"
  shows "optimizePromptFlow ai input =
           ([optimize_request input], Inr \<lparr>optimizedPrompt = fallback input\<rparr>)"
  using assms by (cases "finalText (projr (ai 0 (optimize_request input)))")
    (auto simp: optimizePromptFlow_def truthy_def Let_def)

text \<open>
  C2. When the text model call of the prompt optimizer throws, or returns a response with no
  usable text (\<open>text\<close> and \<open>output?.text\<close> both empty or missing), the action returns
  success with the fallback prompt. The fallback is the fixed template around the aspect ratio
  and the user's prompt, with the sentence on reference images when some were provided; it
  contains the user's prompt and the aspect ratio.
\<close>

theorem optimizer_falls_back_on_provider_failure:
  assumes "ai 0 (optimize_request input) = Inl e \<or>
           (\<exists>r. ai 0 (optimize_request input) = Inr r \<and> \<not> truthy (finalText r))"
  shows "optimizePromptAction (optimizePrompt ai) input = ([optimize_request input], ActionSuccess (fallback input)) \<and>
         fallback input =
           ''Create an eye-catching thumbnail. Aspect ratio: '' @ ratio_str (opt_aspectRatio input) @
           ''. Crop to fit with no padding or black bars. Emphasize strong composition (rule of thirds, leading lines), clear subject separation, and dramatic lighting. Reflect the following intent: '' @
           opt_prompt input @
           (if providedImagesCount input \<noteq> 0
            then ''. Incorporate the provided reference images appropriately.'' else ''.'') \<and>
         sublist (opt_prompt input) (fallback input) \<and>
         sublist (ratio_str (opt_aspectRatio input)) (fallback input)"
proof -
  have action: "optimizePromptAction (optimizePrompt ai) input = ([optimize_request input], ActionSuccess (fallback input))"
    using assms optimize_flow_fallback [of ai input e]
    by (simp add: optimizePromptAction_def optimizePrompt_def)
  have has_ratio: "sublist (ratio_str (opt_aspectRatio input)) (fallback input)"
    unfolding fallback_closed_form by (rule sublist_appendI)
  have "sublist (opt_prompt input) ((''Create an eye-catching thumbnail. Aspect ratio: '' @ ratio_str (opt_aspectRatio input) @
     ''. Crop to fit with no padding or black bars. Emphasize strong composition (rule of thirds, leading lines), clear subject separation, and dramatic lighting. Reflect the following intent: '') @
     opt_prompt input @
     (if providedImagesCount input \<noteq> 0
      then ''. Incorporate the provided reference images appropriately.'' else ''.''))"
    by (rule sublist_appendI)
  then have has_prompt: "sublist (opt_prompt input) (fallback input)"
    unfolding fallback_closed_form by (simp only: append_assoc)
  from action has_ratio has_prompt fallback_closed_form [of input] show ?thesis by blast
qed


theorem optimizer_falls_back_on_provider_failure_witness:
  "snd (optimizePromptAction (optimizePrompt (\<lambda>n req. Inl (Error ''quota exceeded'')))
      \<lparr>opt_prompt = ''red car on a beach'', opt_aspectRatio = Ratio_1_1, opt_image1 = None,
       opt_image2 = None, opt_image3 = None\<rparr>) =
     ActionSuccess ''Create an eye-catching thumbnail. Aspect ratio: 1:1. Crop to fit with no padding or black bars. Emphasize strong composition (rule of thirds, leading lines), clear subject separation, and dramatic lighting. Reflect the following intent: red car on a beach.''"
  using optimizer_falls_back_on_provider_failure
    [of "\<lambda>n req. Inl (Error ''quota exceeded'')"
        "\<lparr>opt_prompt = ''red car on a beach'', opt_aspectRatio = Ratio_1_1, opt_image1 = None,
          opt_image2 = None, opt_image3 = None\<rparr>"
        "Error ''quota exceeded''"]
  by (simp add: providedImagesCount_def imageParts_def media_part_def)

section \<open>System instructions\<close>

lemma sublist_in_middle: "sublist xs ys \<Longrightarrow> sublist xs (ps @ ys @ ss)"
proof -
  assume "sublist xs ys"
  then obtain a b where "ys = a @ xs @ b" by (auto simp: sublist_def)
  then have "ps @ ys @ ss = (ps @ a) @ xs @ (b @ ss)" by simp
  then show ?thesis unfolding sublist_def by blast
qed

lemma sublist_second: "sublist d (a @ b @ c @ d @ e)"
proof -
  have "a @ b @ c @ d @ e = (a @ b @ c) @ d @ e" by simp
  then show ?thesis unfolding sublist_def by blast
qed

lemma ratioRule_vertical:
  "ratioRule Ratio_9_16 =
     ''The final image MUST have an aspect ratio of exactly '' @ ''9:16'' @
     '' (vertical). Do not add any padding or black bars. '' @
     ''Do NOT crop or cut any text or subjects; instead, scale and reposition elements'' @
     '' so that all content remains fully inside the 9:16 frame with comfortable safe margins.''"
  by (simp add: ratioRule_def)

lemma ratioRule_other:
  "r \<noteq> Ratio_9_16 \<Longrightarrow>
   ratioRule r =
     ''The final image MUST have an aspect ratio of exactly '' @ ratio_str r @
     ''. Do not add any padding or black bars. '' @
     ''Crop the image to fit the requested aspect ratio if necessary.'' @ []"
  by (simp add: ratioRule_def)

lemma ratioRule_wording:
  "sublist (ratio_str r) (ratioRule r) \<and>
   sublist (if r = Ratio_9_16
            then ''Do NOT crop or cut any text or subjects; instead, scale and reposition elements''
            else ''Crop the image to fit the requested aspect ratio if necessary.'') (ratioRule r)"
proof (cases "r = Ratio_9_16")
  case True
  have "sublist ''9:16'' (ratioRule Ratio_9_16)"
    unfolding ratioRule_vertical by (rule sublist_appendI)
  moreover have "sublist ''Do NOT crop or cut any text or subjects; instead, scale and reposition elements''
      (ratioRule Ratio_9_16)"
    unfolding ratioRule_vertical by (rule sublist_second)
  ultimately show ?thesis using True by simp
next
  case False
  have "sublist (ratio_str r) (ratioRule r)"
    unfolding ratioRule_other [OF False] by (rule sublist_appendI)
  moreover have "sublist ''Crop the image to fit the requested aspect ratio if necessary.'' (ratioRule r)"
    unfolding ratioRule_other [OF False] by (rule sublist_second)
  ultimately show ?thesis using False by simp
qed

lemma optimize_system_wording:
  "sublist (ratio_str r) (optimize_system r) \<and>
   sublist (if r = Ratio_9_16
            then ''Do NOT crop or cut any text or subjects; instead, scale and reposition elements''
            else ''Crop the image to fit the requested aspect ratio if necessary.'') (optimize_system r)"
  unfolding optimize_system_def using ratioRule_wording [of r] by (blast intro: sublist_in_middle)


lemma generate_system_vertical:
  "generate_system Ratio_9_16 =
     ''You are an expert image generator.\<newline>'' @
     (''You MUST generate an image with an aspect ratio of EXACTLY '' @ ''9:16'' @
      '' (vertical). Do not add any padding or black bars. '' @
      ''Do NOT crop or cut any text or subjects; instead, scale and reposition elements'' @
      '' so that all content remains fully inside the 9:16 frame with comfortable safe margins.'') @
     ''\<newline>''"
  by (simp add: generate_system_def)

lemma generate_system_other:
  "r \<noteq> Ratio_9_16 \<Longrightarrow>
   generate_system r =
     ''You are an expert image generator.\<newline>'' @
     (''You MUST generate an image with an aspect ratio of EXACTLY '' @ ratio_str r @
      ''. Do not add any padding or black bars. '' @
      ''Crop the image to fit the requested aspect ratio if necessary.'' @ []) @
     ''\<newline>''"
  by (simp add: generate_system_def)

lemma generate_system_wording:
  "sublist (ratio_str r) (generate_system r) \<and>
   sublist (if r = Ratio_9_16
            then ''Do NOT crop or cut any text or subjects; instead, scale and reposition elements''
            else ''Crop the image to fit the requested aspect ratio if necessary.'') (generate_system r)"
proof (cases "r = Ratio_9_16")
  case True
  have "sublist ''9:16'' (generate_system Ratio_9_16)"
    unfolding generate_system_vertical by (intro sublist_in_middle sublist_appendI)
  moreover have "sublist ''Do NOT crop or cut any text or subjects; instead, scale and reposition elements''
      (generate_system Ratio_9_16)"
    unfolding generate_system_vertical by (intro sublist_in_middle sublist_second)
  ultimately show ?thesis using True by simp
next
  case False
  have "sublist (ratio_str r) (generate_system r)"
    unfolding generate_system_other [OF False] by (intro sublist_in_middle sublist_appendI)
  moreover have "sublist ''Crop the image to fit the requested aspect ratio if necessary.'' (generate_system r)"
    unfolding generate_system_other [OF False] by (intro sublist_in_middle sublist_second)
  ultimately show ?thesis using False by simp
qed

lemma edit_system_vertical:
  "edit_system Ratio_9_16 =
     ''You are an expert image editor.\<newline>'' @
     (''You MUST edit the image to have an aspect ratio of EXACTLY '' @ ''9:16'' @
      '' (vertical). Do not add any padding or black bars. '' @
      ''Do NOT crop or cut any text or subjects; instead, scale and reposition elements'' @
      '' so that all content remains fully inside the 9:16 frame with comfortable safe margins.'') @
     ''\<newline>''"
  by (simp add: edit_system_def)

lemma edit_system_other:
  "r \<noteq> Ratio_9_16 \<Longrightarrow>
   edit_system r =
     ''You are an expert image editor.\<newline>'' @
     (''You MUST edit the image to have an aspect ratio of EXACTLY '' @ ratio_str r @
      ''. Do not add any padding or black bars. '' @
      ''Crop the image to fit the requested aspect ratio if necessary.'' @ []) @
     ''\<newline>''"
  by (simp add: edit_system_def)

lemma edit_system_wording:
  "sublist (ratio_str r) (edit_system r) \<and>
   sublist (if r = Ratio_9_16
            then ''Do NOT crop or cut any text or subjects; instead, scale and reposition elements''
            else ''Crop the image to fit the requested aspect ratio if necessary.'') (edit_system r)"
proof (cases "r = Ratio_9_16")
  case True
  have "sublist ''9:16'' (edit_system Ratio_9_16)"
    unfolding edit_system_vertical by (intro sublist_in_middle sublist_appendI)
  moreover have "sublist ''Do NOT crop or cut any text or subjects; instead, scale and reposition elements''
      (edit_system Ratio_9_16)"
    unfolding edit_system_vertical by (intro sublist_in_middle sublist_second)
  ultimately show ?thesis using True by simp
next
  case False
  have "sublist (ratio_str r) (edit_system r)"
    unfolding edit_system_other [OF False] by (intro sublist_in_middle sublist_appendI)
  moreover have "sublist ''Crop the image to fit the requested aspect ratio if necessary.'' (edit_system r)"
    unfolding edit_system_other [OF False] by (intro sublist_in_middle sublist_second)
  ultimately show ?thesis using False by simp
qed

lemma flows_send_one_request:
  "fst (optimizePromptFlow ai oi) = [optimize_request oi]"
  "fst (generateThumbnailFromPromptFlow ai gi) = [generate_request gi]"
  "fst (iterativelyEditThumbnailFlow ai ei) = [edit_request ei]"
  by (simp_all add: optimizePromptFlow_def generateThumbnailFromPromptFlow_def
      iterativelyEditThumbnailFlow_def Let_def split: sum.splits option.splits)

text \<open>
  C4. The optimizer, the generator and the editor each send one request, whose system
  instruction is a function of the aspect ratio alone. For every aspect ratio that instruction
  contains the ratio string; for 9:16 it contains the instruction not to crop but to scale and
  reposition, and for the other ratios the instruction to crop the image to fit.
\<close>

theorem system_instruction_names_ratio:
  "fst (optimizePromptFlow ai oi) = [optimize_request oi] \<and>
   fst (generateThumbnailFromPromptFlow ai gi) = [generate_request gi] \<and>
   fst (iterativelyEditThumbnailFlow ai ei) = [edit_request ei] \<and>
   req_system (optimize_request oi) = optimize_system (opt_aspectRatio oi) \<and>
   req_system (generate_request gi) = generate_system (gen_aspectRatio gi) \<and>
   req_system (edit_request ei) = edit_system (edit_aspectRatio ei) \<and>
   sublist (ratio_str r) (optimize_system r) \<and>
   sublist (ratio_str r) (generate_system r) \<and>
   sublist (ratio_str r) (edit_system r) \<and>
   sublist (if r = Ratio_9_16
            then ''Do NOT crop or cut any text or subjects; instead, scale and reposition elements''
            else ''Crop the image to fit the requested aspect ratio if necessary.'')
     (optimize_system r) \<and>
   sublist (if r = Ratio_9_16
            then ''Do NOT crop or cut any text or subjects; instead, scale and reposition elements''
            else ''Crop the image to fit the requested aspect ratio if necessary.'')
     (generate_system r) \<and>
   sublist (if r = Ratio_9_16
            then ''Do NOT crop or cut any text or subjects; instead, scale and reposition elements''
            else ''Crop the image to fit the requested aspect ratio if necessary.'')
     (edit_system r)"
proof -
  have "req_system (optimize_request oi) = optimize_system (opt_aspectRatio oi)"
    by (simp add: optimize_request_def)
  moreover have "req_system (generate_request gi) = generate_system (gen_aspectRatio gi)"
    by (simp add: generate_request_def)
  moreover have "req_system (edit_request ei) = edit_system (edit_aspectRatio ei)"
    by (simp add: edit_request_def)
  ultimately show ?thesis
    using flows_send_one_request optimize_system_wording [of r]
      generate_system_wording [of r] edit_system_wording [of r]
    by blast
qed

section \<open>The action boundary\<close>

text \<open>
  C6. Each of the five actions, around any flow: when the awaited flow throws, the action
  returns \<open>{success: false, error}\<close> with the message of the thrown error; when the flow
  returns, the action returns \<open>{success: true, ...}\<close> with the fields of the flow's result. An
  action has no other outcome: its result is a value of \<^typ>\<open>'a action_result\<close>, and it
  never throws.
\<close>

theorem actions_catch_every_throw:
  "(optimize oi = (c1, Inl e) \<longrightarrow> optimizePromptAction optimize oi = (c1, ActionFailure (message e))) \<and>
   (optimize oi = (c1, Inr r1) \<longrightarrow>
      optimizePromptAction optimize oi = (c1, ActionSuccess (optimizedPrompt r1))) \<and>
   (generate gi = (c2, Inl e) \<longrightarrow> generateThumbnailAction generate gi = (c2, ActionFailure (message e))) \<and>
   (generate gi = (c2, Inr r2) \<longrightarrow>
      generateThumbnailAction generate gi = (c2, ActionSuccess (thumbnail r2))) \<and>
   (edit ei = (c3, Inl e) \<longrightarrow> editThumbnailAction edit ei = (c3, ActionFailure (message e))) \<and>
   (edit ei = (c3, Inr r3) \<longrightarrow>
      editThumbnailAction edit ei = (c3, ActionSuccess (editedThumbnail r3))) \<and>
   (batch bi = (c4, Inl e) \<longrightarrow> batchGenerateAction batch bi = (c4, ActionFailure (message e))) \<and>
   (batch bi = (c4, Inr r4) \<longrightarrow> batchGenerateAction batch bi = (c4, ActionSuccess r4)) \<and>
   (fuse fi = (c5, Inl e) \<longrightarrow> intelligentFusionAction fuse fi = (c5, ActionFailure (message e))) \<and>
   (fuse fi = (c5, Inr r5) \<longrightarrow> intelligentFusionAction fuse fi = (c5, ActionSuccess r5)) \<and>
   \<not> success (ActionFailure (message e) :: string action_result) \<and>
   error (ActionFailure (message e) :: string action_result) = Some (message e) \<and>
   success (ActionSuccess r1) \<and> error (ActionSuccess r1) = None"
  by (simp add: optimizePromptAction_def generateThumbnailAction_def editThumbnailAction_def
      batchGenerateAction_def intelligentFusionAction_def)


theorem actions_catch_every_throw_witness:
  "optimizePromptAction (\<lambda>i. ([], Inl (Error ''quota exceeded'')))
     \<lparr>opt_prompt = ''red car on a beach'', opt_aspectRatio = Ratio_1_1, opt_image1 = None, opt_image2 = None, opt_image3 = None\<rparr> =
     ([], ActionFailure ''quota exceeded'') \<and>
   optimizePromptAction (\<lambda>i. ([], Inr \<lparr>optimizedPrompt = ''a red car''\<rparr>))
     \<lparr>opt_prompt = ''red car on a beach'', opt_aspectRatio = Ratio_1_1, opt_image1 = None, opt_image2 = None, opt_image3 = None\<rparr> =
     ([], ActionSuccess ''a red car'') \<and>
   generateThumbnailAction (\<lambda>i. ([], Inl (Error ''quota exceeded'')))
     \<lparr>gen_prompt = ''red car on a beach'', gen_image1 = None, gen_image2 = None, gen_image3 = None, gen_aspectRatio = Ratio_1_1\<rparr> =
     ([], ActionFailure ''quota exceeded'') \<and>
   generateThumbnailAction (\<lambda>i. ([], Inr \<lparr>thumbnail = ''data:image/png;base64,BBBB''\<rparr>))
     \<lparr>gen_prompt = ''red car on a beach'', gen_image1 = None, gen_image2 = None, gen_image3 = None, gen_aspectRatio = Ratio_1_1\<rparr> =
     ([], ActionSuccess ''data:image/png;base64,BBBB'') \<and>
   editThumbnailAction (\<lambda>i. ([], Inl (Error ''quota exceeded'')))
     \<lparr>edit_baseImage = ''data:image/png;base64,AAAA'', edit_prompt = ''make it blue'', edit_aspectRatio = Ratio_9_16\<rparr> =
     ([], ActionFailure ''quota exceeded'') \<and>
   editThumbnailAction (\<lambda>i. ([], Inr \<lparr>editedThumbnail = ''data:image/png;base64,CCCC''\<rparr>))
     \<lparr>edit_baseImage = ''data:image/png;base64,AAAA'', edit_prompt = ''make it blue'', edit_aspectRatio = Ratio_9_16\<rparr> =
     ([], ActionSuccess ''data:image/png;base64,CCCC'') \<and>
   batchGenerateAction (\<lambda>i. ([], Inl (Error ''quota exceeded'')))
     \<lparr>prompts = [''a'', ''b''], basePrompt = ''series'', batch_aspectRatio = Ratio_16_9, styleReference = None, characterReference = None, consistencyMode = Theme\<rparr> =
     ([], ActionFailure ''quota exceeded'') \<and>
   batchGenerateAction (\<lambda>i. ([], Inr \<lparr>thumbnails = [], consistency_score = Num 0\<rparr>))
     \<lparr>prompts = [''a'', ''b''], basePrompt = ''series'', batch_aspectRatio = Ratio_16_9, styleReference = None, characterReference = None, consistencyMode = Theme\<rparr> =
     ([], ActionSuccess \<lparr>thumbnails = [], consistency_score = Num 0\<rparr>) \<and>
   intelligentFusionAction (\<lambda>i. ([], Inl (Error ''quota exceeded'')))
     \<lparr>images = [''data:a'', ''data:b''], fusionPrompt = ''merge'', fusion_aspectRatio = Ratio_1_1, fusionStyle = Blend, dominantImage = (None :: int option), creativityLevel = Balanced\<rparr> =
     ([], ActionFailure ''quota exceeded'') \<and>
   intelligentFusionAction (\<lambda>i. ([], Inr \<lparr>fusedImage = ''data:f'', fusionDescription = ''d'', technicalDetails = \<lparr>primaryElements = [], fusionTechnique = ''blend'', aspectRatioHandling = ''h''\<rparr>\<rparr>))
     \<lparr>images = [''data:a'', ''data:b''], fusionPrompt = ''merge'', fusion_aspectRatio = Ratio_1_1, fusionStyle = Blend, dominantImage = (None :: int option), creativityLevel = Balanced\<rparr> =
     ([], ActionSuccess \<lparr>fusedImage = ''data:f'', fusionDescription = ''d'', technicalDetails = \<lparr>primaryElements = [], fusionTechnique = ''blend'', aspectRatioHandling = ''h''\<rparr>\<rparr>)"
  using actions_catch_every_throw
      [of "\<lambda>i. ([], Inl (Error ''quota exceeded''))" "\<lparr>opt_prompt = ''red car on a beach'', opt_aspectRatio = Ratio_1_1, opt_image1 = None, opt_image2 = None, opt_image3 = None\<rparr>" "[]" "Error ''quota exceeded''" "\<lparr>optimizedPrompt = ''a red car''\<rparr>" "\<lambda>i. ([], Inl (Error ''quota exceeded''))" "\<lparr>gen_prompt = ''red car on a beach'', gen_image1 = None, gen_image2 = None, gen_image3 = None, gen_aspectRatio = Ratio_1_1\<rparr>" "[]" "\<lparr>thumbnail = ''data:image/png;base64,BBBB''\<rparr>" "\<lambda>i. ([], Inl (Error ''quota exceeded''))" "\<lparr>edit_baseImage = ''data:image/png;base64,AAAA'', edit_prompt = ''make it blue'', edit_aspectRatio = Ratio_9_16\<rparr>" "[]" "\<lparr>editedThumbnail = ''data:image/png;base64,CCCC''\<rparr>" "\<lambda>i. ([], Inl (Error ''quota exceeded''))" "\<lparr>prompts = [''a'', ''b''], basePrompt = ''series'', batch_aspectRatio = Ratio_16_9, styleReference = None, characterReference = None, consistencyMode = Theme\<rparr>" "[]" "\<lparr>thumbnails = [], consistency_score = Num 0\<rparr>" "\<lambda>i. ([], Inl (Error ''quota exceeded''))" "\<lparr>images = [''data:a'', ''data:b''], fusionPrompt = ''merge'', fusion_aspectRatio = Ratio_1_1, fusionStyle = Blend, dominantImage = (None :: int option), creativityLevel = Balanced\<rparr>" "[]" "\<lparr>fusedImage = ''data:f'', fusionDescription = ''d'', technicalDetails = \<lparr>primaryElements = [], fusionTechnique = ''blend'', aspectRatioHandling = ''h''\<rparr>\<rparr>"]
    actions_catch_every_throw
      [of "\<lambda>i. ([], Inr \<lparr>optimizedPrompt = ''a red car''\<rparr>)" "\<lparr>opt_prompt = ''red car on a beach'', opt_aspectRatio = Ratio_1_1, opt_image1 = None, opt_image2 = None, opt_image3 = None\<rparr>" "[]" "Error ''quota exceeded''" "\<lparr>optimizedPrompt = ''a red car''\<rparr>" "\<lambda>i. ([], Inr \<lparr>thumbnail = ''data:image/png;base64,BBBB''\<rparr>)" "\<lparr>gen_prompt = ''red car on a beach'', gen_image1 = None, gen_image2 = None, gen_image3 = None, gen_aspectRatio = Ratio_1_1\<rparr>" "[]" "\<lparr>thumbnail = ''data:image/png;base64,BBBB''\<rparr>" "\<lambda>i. ([], Inr \<lparr>editedThumbnail = ''data:image/png;base64,CCCC''\<rparr>)" "\<lparr>edit_baseImage = ''data:image/png;base64,AAAA'', edit_prompt = ''make it blue'', edit_aspectRatio = Ratio_9_16\<rparr>" "[]" "\<lparr>editedThumbnail = ''data:image/png;base64,CCCC''\<rparr>" "\<lambda>i. ([], Inr \<lparr>thumbnails = [], consistency_score = Num 0\<rparr>)" "\<lparr>prompts = [''a'', ''b''], basePrompt = ''series'', batch_aspectRatio = Ratio_16_9, styleReference = None, characterReference = None, consistencyMode = Theme\<rparr>" "[]" "\<lparr>thumbnails = [], consistency_score = Num 0\<rparr>" "\<lambda>i. ([], Inr \<lparr>fusedImage = ''data:f'', fusionDescription = ''d'', technicalDetails = \<lparr>primaryElements = [], fusionTechnique = ''blend'', aspectRatioHandling = ''h''\<rparr>\<rparr>)" "\<lparr>images = [''data:a'', ''data:b''], fusionPrompt = ''merge'', fusion_aspectRatio = Ratio_1_1, fusionStyle = Blend, dominantImage = (None :: int option), creativityLevel = Balanced\<rparr>" "[]" "\<lparr>fusedImage = ''data:f'', fusionDescription = ''d'', technicalDetails = \<lparr>primaryElements = [], fusionTechnique = ''blend'', aspectRatioHandling = ''h''\<rparr>\<rparr>"]
  by simp


section \<open>The batch loop\<close>

lemma batch_loop_unfold:
  "i \<le> length (prompts input) \<Longrightarrow>
   batch_loop ai input i calls thumbs =
     (calls @ map (\<lambda>j. batch_request input (prompts input ! j)) [i..<length (prompts input)],
      thumbs @ concat (map (batch_item ai input) [i..<length (prompts input)]))"
proof (induction ai input i calls thumbs rule: batch_loop.induct)
  case (1 ai input i calls thumbs)
  show ?case
  proof (cases "i < length (prompts input)")
    case True
    then have "batch_loop ai input i calls thumbs =
        batch_loop ai input (i + 1) (calls @ [batch_request input (prompts input ! i)])
          (thumbs @ batch_item ai input i)"
      by (subst batch_loop.simps) simp
    also have "\<dots> =
        ((calls @ [batch_request input (prompts input ! i)]) @
           map (\<lambda>j. batch_request input (prompts input ! j)) [i + 1..<length (prompts input)],
         (thumbs @ batch_item ai input i) @
           concat (map (batch_item ai input) [i + 1..<length (prompts input)]))"
      using True by (intro "1.IH") simp_all
    finally show ?thesis using True by (simp add: upt_conv_Cons)
  next
    case False
    with "1.prems" have "i = length (prompts input)" by simp
    then show ?thesis by (subst batch_loop.simps) simp
  qed
qed

lemma batchGenerateFlow_body_unfold:
  "batchGenerateFlow_body ai input =
     (map (\<lambda>j. batch_request input (prompts input ! j)) [0..<length (prompts input)],
      Inr \<lparr>thumbnails = concat (map (batch_item ai input) [0..<length (prompts input)]),
           consistency_score =
             js_div (length (concat (map (batch_item ai input) [0..<length (prompts input)])))
               (length (prompts input))\<rparr>)"
  by (simp add: batchGenerateFlow_body_def batch_loop_unfold)

text \<open>The runner refuses the output of the function exactly when there is no prompt.\<close>

lemma batchGenerateFlow_unfold:
  "batchGenerateFlow vm ai input =
     (map (\<lambda>j. batch_request input (prompts input ! j)) [0..<length (prompts input)],
      if prompts input = [] then Inl (Error (vm OutputCheck))
      else
        Inr \<lparr>thumbnails = concat (map (batch_item ai input) [0..<length (prompts input)]),
             consistency_score =
               js_div (length (concat (map (batch_item ai input) [0..<length (prompts input)])))
                 (length (prompts input))\<rparr>)"
  by (simp add: batchGenerateFlow_def defineFlow_def batchGenerateFlow_body_unfold
      BatchGenerateOutputSchema_def js_div_def)

lemma concat_map_if_singleton:
  "concat (map (\<lambda>i. if P i then [f i] else []) xs) = map f (filter P xs)"
  by (induction xs) simp_all

lemma filter_upt_except:
  assumes "k < n"
  shows "filter (\<lambda>i. i \<noteq> k) [0..<n] = [0..<k] @ [Suc k..<n]"
proof -
  have "[0..<n] = [0..<k] @ k # [Suc k..<n]"
    using assms by (metis less_imp_le_nat upt_add_eq_append upt_conv_Cons le0 le_add_diff_inverse plus_nat.add_0)
  moreover have "filter (\<lambda>i. i \<noteq> k) [0..<k] = [0..<k]" by (simp add: filter_id_conv)
  moreover have "filter (\<lambda>i. i \<noteq> k) [Suc k..<n] = [Suc k..<n]" by (simp add: filter_id_conv)
  ultimately show ?thesis by simp
qed

lemma length_batch_item: "length (batch_item ai input i) \<le> 1"
  by (simp add: batch_item_def Let_def split: sum.splits option.splits)

lemma length_concat_batch_items:
  "length (concat (map (batch_item ai input) xs)) \<le> length xs"
proof (induction xs)
  case Nil
  then show ?case by simp
next
  case (Cons x xs)
  then show ?case using length_batch_item [of ai input x] by simp
qed

text \<open>
  C1. When the provider throws on item \<open>k\<close> of the batch and returns an image for every other
  item, the flow returns one entry for each index other than \<open>k\<close>, in ascending order, with
  the image returned for that index, the prompt at that index and the index; there are
  \<open>N - 1\<close> of them and the score is \<open>(N - 1) / N\<close>.
\<close>

theorem batch_skips_the_failed_item:
  assumes k: "k < length (prompts input)"
    and fails: "ai k (batch_request input (prompts input ! k)) = Inl e"
    and others: "\<forall>i < length (prompts input). i \<noteq> k \<longrightarrow>
        (\<exists>r. ai i (batch_request input (prompts input ! i)) = Inr r \<and>
             res_media r = Some (url i) \<and> url i \<noteq> [])"
  shows "snd (batchGenerateFlow vm ai input) =
      Inr \<lparr>thumbnails =
             map (\<lambda>i. \<lparr>thumb_image = url i, thumb_prompt = prompts input ! i, thumb_index = i\<rparr>)
               ([0..<k] @ [Suc k..<length (prompts input)]),
           consistency_score =
             Num (rat_of_nat (length (prompts input) - 1) / rat_of_nat (length (prompts input)))\<rparr> \<and>
    [0..<k] @ [Suc k..<length (prompts input)] = filter (\<lambda>i. i \<noteq> k) [0..<length (prompts input)] \<and>
    length ([0..<k] @ [Suc k..<length (prompts input)]) = length (prompts input) - 1"
proof -
  let ?N = "length (prompts input)"
  let ?entry = "\<lambda>i. \<lparr>thumb_image = url i, thumb_prompt = prompts input ! i, thumb_index = i\<rparr>"
  have item: "batch_item ai input i = (if i \<noteq> k then [?entry i] else [])" if "i < ?N" for i
  proof (cases "i = k")
    case True
    then show ?thesis using fails by (simp add: batch_item_def)
  next
    case False
    with others that obtain r where "ai i (batch_request input (prompts input ! i)) = Inr r"
      and "res_media r = Some (url i)" and "url i \<noteq> []" by blast
    then show ?thesis using False by (simp add: batch_item_def)
  qed
  have "map (batch_item ai input) [0..<?N] = map (\<lambda>i. if i \<noteq> k then [?entry i] else []) [0..<?N]"
    by (rule map_cong) (simp_all add: item)
  then have thumbs: "concat (map (batch_item ai input) [0..<?N]) = map ?entry ([0..<k] @ [Suc k..<?N])"
    by (simp only: concat_map_if_singleton filter_upt_except [OF k])
  have len: "length (map ?entry ([0..<k] @ [Suc k..<?N])) = ?N - 1"
    using k by simp
  have "js_div (?N - 1) ?N = Num (rat_of_nat (?N - 1) / rat_of_nat ?N)"
    using k by (auto simp add: js_div_def)
  moreover have "prompts input \<noteq> []"
    using k by auto
  ultimately have "snd (batchGenerateFlow vm ai input) =
      Inr \<lparr>thumbnails = map ?entry ([0..<k] @ [Suc k..<?N]),
           consistency_score = Num (rat_of_nat (?N - 1) / rat_of_nat ?N)\<rparr>"
    using k len unfolding batchGenerateFlow_unfold thumbs by simp
  moreover have "length ([0..<k] @ [Suc k..<?N]) = ?N - 1"
    using k by simp
  ultimately show ?thesis
    using filter_upt_except [OF k] by simp
qed

theorem batch_skips_the_failed_item_witness:
  "snd (batchGenerateFlow (\<lambda>c. ''Schema validation failed'')
      (\<lambda>i req. if i = 1 then Inl (Error ''quota exceeded'')
                else Inr \<lparr>res_media = Some ''data:image/png;base64,AAAA'', res_text = [],
                          res_output_text = None\<rparr>)
      \<lparr>prompts = [''cat'', ''dog'', ''owl''], basePrompt = ''pets'', batch_aspectRatio = Ratio_16_9,
       styleReference = None, characterReference = None, consistencyMode = Theme\<rparr>) =
    Inr \<lparr>thumbnails =
           [\<lparr>thumb_image = ''data:image/png;base64,AAAA'', thumb_prompt = ''cat'', thumb_index = 0\<rparr>,
            \<lparr>thumb_image = ''data:image/png;base64,AAAA'', thumb_prompt = ''owl'', thumb_index = 2\<rparr>],
         consistency_score = Num (2 / 3)\<rparr>"
  using batch_skips_the_failed_item
    [where vm = "\<lambda>c. ''Schema validation failed''" and k = 1 and input = "\<lparr>prompts = [''cat'', ''dog'', ''owl''], basePrompt = ''pets'', batch_aspectRatio = Ratio_16_9,
             styleReference = None, characterReference = None, consistencyMode = Theme\<rparr>"
      and ai = "\<lambda>i req. if i = 1 then Inl (Error ''quota exceeded'')
                  else Inr \<lparr>res_media = Some ''data:image/png;base64,AAAA'', res_text = [],
                            res_output_text = None\<rparr>"
      and e = "Error ''quota exceeded''" and url = "\<lambda>i. ''data:image/png;base64,AAAA''"]
  by (simp add: upt_rec numeral_eq_Suc)

text \<open>
  C8. With no prompt the function of the flow sends no request and computes the score
  \<open>0 / 0\<close>, which is \<open>NaN\<close> and no ratio: the output schema refuses it, so the flow throws
  and the action returns the failure. With at least one prompt the flow returns, and the score
  is the rational number of entries over prompts, between 0 and 1.
\<close>

theorem batch_score_needs_a_prompt:
  "(prompts input = [] \<longrightarrow>
      batchGenerateFlow_body ai input = ([], Inr \<lparr>thumbnails = [], consistency_score = NaN\<rparr>) \<and>
      \<not> BatchGenerateOutputSchema \<lparr>thumbnails = [], consistency_score = NaN\<rparr> \<and>
      batchGenerateFlow vm ai input = ([], Inl (Error (vm OutputCheck))) \<and>
      batchGenerateAction (batchGenerateThumbnails vm ai) input =
        ([], ActionFailure (vm OutputCheck))) \<and>
   (prompts input \<noteq> [] \<longrightarrow>
      (\<exists>calls out q. batchGenerateFlow_body ai input = (calls, Inr out) \<and>
         batchGenerateFlow vm ai input = (calls, Inr out) \<and>
         length calls = length (prompts input) \<and>
         consistency_score out = Num q \<and>
         q = rat_of_nat (length (thumbnails out)) / rat_of_nat (length (prompts input)) \<and>
         0 \<le> q \<and> q \<le> 1))"
proof (intro conjI impI)
  assume empty: "prompts input = []"
  then show "batchGenerateFlow_body ai input =
      ([], Inr \<lparr>thumbnails = [], consistency_score = NaN\<rparr>)"
    by (simp add: batchGenerateFlow_body_unfold js_div_def)
  show "\<not> BatchGenerateOutputSchema \<lparr>thumbnails = [], consistency_score = NaN\<rparr>"
    by (simp add: BatchGenerateOutputSchema_def)
  from empty show flow: "batchGenerateFlow vm ai input = ([], Inl (Error (vm OutputCheck)))"
    by (simp add: batchGenerateFlow_unfold)
  then show "batchGenerateAction (batchGenerateThumbnails vm ai) input =
      ([], ActionFailure (vm OutputCheck))"
    by (simp add: batchGenerateAction_def batchGenerateThumbnails_def)
next
  assume nonempty: "prompts input \<noteq> []"
  let ?N = "length (prompts input)"
  let ?thumbs = "concat (map (batch_item ai input) [0..<?N])"
  have "length ?thumbs \<le> ?N"
    using length_concat_batch_items [of ai input "[0..<?N]"] by simp
  then have "rat_of_nat (length ?thumbs) / rat_of_nat ?N \<le> 1"
    using nonempty by (simp add: divide_le_eq_1)
  moreover have "0 \<le> rat_of_nat (length ?thumbs) / rat_of_nat ?N"
    by simp
  ultimately show "\<exists>calls out q. batchGenerateFlow_body ai input = (calls, Inr out) \<and>
         batchGenerateFlow vm ai input = (calls, Inr out) \<and>
         length calls = length (prompts input) \<and>
         consistency_score out = Num q \<and>
         q = rat_of_nat (length (thumbnails out)) / rat_of_nat (length (prompts input)) \<and>
         0 \<le> q \<and> q \<le> 1"
    using nonempty unfolding batchGenerateFlow_unfold batchGenerateFlow_body_unfold
    by (simp add: js_div_def)
qed

theorem batch_score_needs_a_prompt_witness:
  "batchGenerateFlow_body (\<lambda>i req. Inl (Error ''offline''))
      \<lparr>prompts = [], basePrompt = ''pets'', batch_aspectRatio = Ratio_1_1, styleReference = None, characterReference = None, consistencyMode = NoConsistency\<rparr> =
     ([], Inr \<lparr>thumbnails = [], consistency_score = NaN\<rparr>) \<and>
   batchGenerateAction (batchGenerateThumbnails (\<lambda>c. ''Schema validation failed'') (\<lambda>i req. Inl (Error ''offline'')))
      \<lparr>prompts = [], basePrompt = ''pets'', batch_aspectRatio = Ratio_1_1, styleReference = None, characterReference = None, consistencyMode = NoConsistency\<rparr> =
     ([], ActionFailure ''Schema validation failed'') \<and>
   (\<exists>calls out q.
      batchGenerateFlow (\<lambda>c. ''Schema validation failed'') (\<lambda>i req. Inl (Error ''offline''))
        \<lparr>prompts = [''cat''], basePrompt = ''pets'', batch_aspectRatio = Ratio_1_1, styleReference = None, characterReference = None, consistencyMode = NoConsistency\<rparr> =
        (calls, Inr out) \<and>
      length calls = 1 \<and> consistency_score out = Num q \<and> 0 \<le> q \<and> q \<le> 1)"
  using batch_score_needs_a_prompt
      [of "\<lparr>prompts = [], basePrompt = ''pets'', batch_aspectRatio = Ratio_1_1, styleReference = None, characterReference = None, consistencyMode = NoConsistency\<rparr>"
          "\<lambda>i req. Inl (Error ''offline'')" "\<lambda>c. ''Schema validation failed''"]
    batch_score_needs_a_prompt
      [of "\<lparr>prompts = [''cat''], basePrompt = ''pets'', batch_aspectRatio = Ratio_1_1, styleReference = None, characterReference = None, consistencyMode = NoConsistency\<rparr>"
          "\<lambda>i req. Inl (Error ''offline'')" "\<lambda>c. ''Schema validation failed''"]
  by auto

lemma batch_calls:
  "fst (batchGenerateFlow vm ai input) = map (batch_request input) (prompts input)"
proof -
  have "map (\<lambda>j. batch_request input (prompts input ! j)) [0..<length (prompts input)] =
        map (batch_request input) (map (\<lambda>j. prompts input ! j) [0..<length (prompts input)])"
    by simp
  then show ?thesis by (simp only: batchGenerateFlow_unfold fst_conv map_nth)
qed

text \<open>
  C9, as stated, fails: with mode \<open>character\<close> and no character reference the request is not
  the request of mode \<open>none\<close>, because the system instruction still names the mode.
\<close>

theorem unreferenced_mode_request_differs:
  "batch_request
     \<lparr>prompts = [''cat''], basePrompt = ''pets'', batch_aspectRatio = Ratio_1_1,
      styleReference = None, characterReference = None, consistencyMode = Character\<rparr> ''cat'' \<noteq>
   batch_request
     \<lparr>prompts = [''cat''], basePrompt = ''pets'', batch_aspectRatio = Ratio_1_1,
      styleReference = None, characterReference = None, consistencyMode = NoConsistency\<rparr> ''cat''"
  by (simp add: batch_request_def batch_system_def)

lemma batch_system_names_mode:
  "consistencyMode input \<noteq> NoConsistency \<Longrightarrow>
   sublist (''('' @ mode_str (consistencyMode input) @ '' consistency is CRITICAL)'') (batch_system input)"
proof -
  assume m: "consistencyMode input \<noteq> NoConsistency"
  let ?pre = "''You are an expert thumbnail designer specializing in creating consistent, high-impact visual series. You excel at maintaining visual consistency across multiple designs while ensuring each thumbnail is unique and engaging.\<newline>\<newline>'' @
     (if batch_aspectRatio input = Ratio_9_16
      then ''Generate vertical 9:16 thumbnails. Keep all text and visual elements fully inside the frame with comfortable safe margins. Do NOT crop or cut any content; instead, scale and reposition elements to fit the vertical format.''
      else ''Generate thumbnails with exact aspect ratio '' @ ratio_str (batch_aspectRatio input) @
           ''. Ensure all elements fit properly within the frame.'') @
     ''\<newline>\<newline>Focus on:\<newline>- Visual consistency ''"
  have "batch_system input = ?pre @ (''('' @ mode_str (consistencyMode input) @ '' consistency is CRITICAL)'') @
     ''\<newline>- High contrast and readability\<newline>- Professional design quality\<newline>- Thumbnail-optimized composition\<newline>- Clear visual hierarchy''"
    using m by (simp add: batch_system_def)
  then show ?thesis by (simp only: sublist_appendI)
qed

lemma batch_system_differs:
  assumes "consistencyMode input \<noteq> NoConsistency"
  shows "batch_system input \<noteq> batch_system (input\<lparr>consistencyMode := NoConsistency\<rparr>)"
proof -
  let ?line = "''('' @ mode_str (consistencyMode input) @ '' consistency is CRITICAL)''"
  let ?rest = "''\<newline>- High contrast and readability\<newline>- Professional design quality\<newline>- Thumbnail-optimized composition\<newline>- Clear visual hierarchy''"
  have "?line @ ?rest \<noteq> ?rest"
    by simp
  then show ?thesis
    using assms by (simp add: batch_system_def)
qed

text \<open>
  C9, amended. With mode \<open>character\<close> and no character reference, or mode \<open>style\<close> and no
  style reference, no consistency sentence is appended and no reference image is attached: the
  prompt parts of every request are those of mode \<open>none\<close>. The system instruction of every
  request still carries the line naming the mode as critical, so it differs from the system
  instruction of mode \<open>none\<close>, and so does every request.
\<close>

theorem unreferenced_mode_sends_plain_prompt:
  assumes "(consistencyMode input = Character \<and> \<not> truthy (characterReference input)) \<or>
           (consistencyMode input = Style \<and> \<not> truthy (styleReference input))"
  shows "consistencyInstruction input = [] \<and> referenceImages input = [] \<and>
         map req_prompt (fst (batchGenerateFlow vm ai input)) =
           map req_prompt (fst (batchGenerateFlow vm ai (input\<lparr>consistencyMode := NoConsistency\<rparr>))) \<and>
         map req_system (fst (batchGenerateFlow vm ai input)) =
           replicate (length (prompts input)) (batch_system input) \<and>
         sublist (''('' @ mode_str (consistencyMode input) @ '' consistency is CRITICAL)'')
           (batch_system input) \<and>
         batch_system input \<noteq> batch_system (input\<lparr>consistencyMode := NoConsistency\<rparr>) \<and>
         batch_request input p \<noteq> batch_request (input\<lparr>consistencyMode := NoConsistency\<rparr>) p"
proof -
  have ci: "consistencyInstruction input = []"
    using assms by (auto simp: consistencyInstruction_def)
  have ri: "referenceImages input = []"
    using assms by (auto simp: referenceImages_def)
  have ci': "consistencyInstruction (input\<lparr>consistencyMode := NoConsistency\<rparr>) = []"
    by (simp add: consistencyInstruction_def)
  have ri': "referenceImages (input\<lparr>consistencyMode := NoConsistency\<rparr>) = []"
    by (simp add: referenceImages_def)
  have "req_prompt (batch_request input p) =
        req_prompt (batch_request (input\<lparr>consistencyMode := NoConsistency\<rparr>) p)" for p
    by (simp add: batch_request_def enhancedPrompt_def ci ri ci' ri')
  then have prompts_eq: "map req_prompt (fst (batchGenerateFlow vm ai input)) =
      map req_prompt (fst (batchGenerateFlow vm ai (input\<lparr>consistencyMode := NoConsistency\<rparr>)))"
    by (simp add: batch_calls)
  have systems: "map req_system (fst (batchGenerateFlow vm ai input)) =
      replicate (length (prompts input)) (batch_system input)"
    by (simp add: batch_calls batch_request_def comp_def map_replicate_const)
  have mode: "consistencyMode input \<noteq> NoConsistency" using assms by auto
  have differs: "batch_system input \<noteq> batch_system (input\<lparr>consistencyMode := NoConsistency\<rparr>)"
    by (rule batch_system_differs [OF mode])
  then have "req_system (batch_request input p) \<noteq>
      req_system (batch_request (input\<lparr>consistencyMode := NoConsistency\<rparr>) p)"
    by (simp add: batch_request_def)
  then have requests: "batch_request input p \<noteq>
      batch_request (input\<lparr>consistencyMode := NoConsistency\<rparr>) p"
    by auto
  from batch_system_names_mode [OF mode] ci ri prompts_eq systems differs requests
  show ?thesis by blast
qed


theorem unreferenced_mode_sends_plain_prompt_witness:
  "map req_prompt (fst (batchGenerateFlow (\<lambda>c. ''Schema validation failed'') (\<lambda>i req. Inl (Error ''offline''))
      \<lparr>prompts = [''cat'', ''dog''], basePrompt = ''pets'', batch_aspectRatio = Ratio_1_1, styleReference = Some ''data:image/png;base64,AAAA'', characterReference = None, consistencyMode = Character\<rparr>)) =
   map req_prompt (fst (batchGenerateFlow (\<lambda>c. ''Schema validation failed'') (\<lambda>i req. Inl (Error ''offline''))
      \<lparr>prompts = [''cat'', ''dog''], basePrompt = ''pets'', batch_aspectRatio = Ratio_1_1, styleReference = Some ''data:image/png;base64,AAAA'', characterReference = None, consistencyMode = NoConsistency\<rparr>)) \<and>
   sublist ''(character consistency is CRITICAL)''
     (batch_system
        \<lparr>prompts = [''cat'', ''dog''], basePrompt = ''pets'', batch_aspectRatio = Ratio_1_1, styleReference = Some ''data:image/png;base64,AAAA'', characterReference = None, consistencyMode = Character\<rparr>)"
  using unreferenced_mode_sends_plain_prompt
    [where input = "\<lparr>prompts = [''cat'', ''dog''], basePrompt = ''pets'', batch_aspectRatio = Ratio_1_1, styleReference = Some ''data:image/png;base64,AAAA'', characterReference = None, consistencyMode = Character\<rparr>"
       and ai = "\<lambda>i req. Inl (Error ''offline'')" and vm = "\<lambda>c. ''Schema validation failed''"]
  by (simp add: truthy_def)

section \<open>The fusion input\<close>

text \<open>
  C5. An intelligent fusion input with fewer than 2 or more than 4 images fails the input
  schema; the flow then throws the validation error with no request sent, and the action
  returns the failure with that message.
\<close>

theorem fusion_rejects_wrong_image_count:
  assumes "length (images input) < 2 \<or> 4 < length (images input)"
  shows "\<not> IntelligentFusionInputSchema input \<and>
         intelligentFusion vm js ai input = ([], Inl (Error (vm InputCheck))) \<and>
         intelligentFusionAction (intelligentFusion vm js ai) input =
           ([], ActionFailure (vm InputCheck))"
  using assms
  by (auto simp: IntelligentFusionInputSchema_def intelligentFusion_def intelligentFusionFlow_def
      defineFlow_def intelligentFusionAction_def)

theorem fusion_rejects_wrong_image_count_witness:
  "intelligentFusionAction (intelligentFusion (\<lambda>c. ''Schema validation failed'') safe_integers (\<lambda>i req. Inr \<lparr>res_media = None, res_text = ''two photos'', res_output_text = None\<rparr>))
     \<lparr>images = [''data:a''], fusionPrompt = ''merge'', fusion_aspectRatio = Ratio_1_1, fusionStyle = Blend, dominantImage = (None :: int option), creativityLevel = Balanced\<rparr> =
     ([], ActionFailure ''Schema validation failed'') \<and>
   intelligentFusionAction (intelligentFusion (\<lambda>c. ''Schema validation failed'') safe_integers (\<lambda>i req. Inr \<lparr>res_media = None, res_text = ''two photos'', res_output_text = None\<rparr>))
     \<lparr>images = [''data:a'', ''data:b'', ''data:c'', ''data:d'', ''data:e''], fusionPrompt = ''merge'', fusion_aspectRatio = Ratio_1_1, fusionStyle = Blend, dominantImage = (None :: int option), creativityLevel = Balanced\<rparr> =
     ([], ActionFailure ''Schema validation failed'')"
  using fusion_rejects_wrong_image_count
      [where input = "\<lparr>images = [''data:a''], fusionPrompt = ''merge'', fusion_aspectRatio = Ratio_1_1, fusionStyle = Blend, dominantImage = (None :: int option), creativityLevel = Balanced\<rparr>"
         and vm = "\<lambda>c. ''Schema validation failed''" and js = safe_integers
         and ai = "\<lambda>i req. Inr \<lparr>res_media = None, res_text = ''two photos'', res_output_text = None\<rparr>"]
    fusion_rejects_wrong_image_count
      [where input = "\<lparr>images = [''data:a'', ''data:b'', ''data:c'', ''data:d'', ''data:e''], fusionPrompt = ''merge'', fusion_aspectRatio = Ratio_1_1, fusionStyle = Blend, dominantImage = (None :: int option), creativityLevel = Balanced\<rparr>"
         and vm = "\<lambda>c. ''Schema validation failed''" and js = safe_integers
         and ai = "\<lambda>i req. Inr \<lparr>res_media = None, res_text = ''two photos'', res_output_text = None\<rparr>"]
  by simp






section \<open>The generation history\<close>

lemma toast_history [simp]: "ui_generationHistory (toast t d s) = ui_generationHistory s"
  by (simp add: toast_def)

lemma handleGenerate_history:
  "ui_generationHistory (handleGenerate ai now s) =
     (if ui_optimizedPrompt s = [] then ui_generationHistory s
      else case snd (generateThumbnailAction (generateThumbnailFromPrompt ai) (generate_input s)) of
             ActionSuccess thumb \<Rightarrow>
               ui_generationHistory s @
               [\<lparr>h_prompt = ui_optimizedPrompt s, h_image = thumb, h_timestamp = now,
                 h_aspectRatio = ui_aspectRatio s\<rparr>]
           | ActionFailure err \<Rightarrow> ui_generationHistory s)"
  by (simp add: handleGenerate_def split: action_result.splits)

lemma other_handlers_keep_history:
  "ui_generationHistory (handleImageChange files s) = ui_generationHistory s"
  "ui_generationHistory (handleRemoveImage index s) = ui_generationHistory s"
  "ui_generationHistory (handleOptimizePrompt ai s) = ui_generationHistory s"
  "ui_generationHistory (handleEdit ai s) = ui_generationHistory s"
  "ui_generationHistory (handleDownload s) = ui_generationHistory s"
  by (simp_all add: handleImageChange_def handleRemoveImage_def handleOptimizePrompt_def
      handleEdit_def handleDownload_def split: option.splits action_result.splits)

text \<open>
  C7. A generation that succeeds appends one entry to the history: the optimized prompt, the
  returned image, the time and the aspect ratio. A generation that fails, or that is refused
  for want of an optimized prompt, leaves the history as it was. No other handler changes the
  history, so after any event the old history is a prefix of the new one, which is longer by
  one entry at most.
\<close>

theorem history_is_append_only:
  "(ui_optimizedPrompt s \<noteq> [] \<and>
    snd (generateThumbnailAction (generateThumbnailFromPrompt ai) (generate_input s)) = ActionSuccess thumb \<longrightarrow>
      ui_generationHistory (handleGenerate ai now s) =
        ui_generationHistory s @
        [\<lparr>h_prompt = ui_optimizedPrompt s, h_image = thumb, h_timestamp = now,
          h_aspectRatio = ui_aspectRatio s\<rparr>]) \<and>
   (snd (generateThumbnailAction (generateThumbnailFromPrompt ai) (generate_input s)) = ActionFailure err \<longrightarrow>
      ui_generationHistory (handleGenerate ai now s) = ui_generationHistory s) \<and>
   (ui_optimizedPrompt s = [] \<longrightarrow>
      ui_generationHistory (handleGenerate ai now s) = ui_generationHistory s) \<and>
   ((\<forall>ai now. ev \<noteq> ClickGenerate ai now) \<longrightarrow>
      ui_generationHistory (handle ev s) = ui_generationHistory s) \<and>
   prefix (ui_generationHistory s) (ui_generationHistory (handle ev s)) \<and>
   length (ui_generationHistory (handle ev s)) \<le> length (ui_generationHistory s) + 1"
proof -
  have other: "ui_generationHistory (handle ev s) = ui_generationHistory s"
    if "\<forall>ai now. ev \<noteq> ClickGenerate ai now"
    using that by (cases ev) (simp_all add: other_handlers_keep_history split: option.splits)
  have pre: "prefix (ui_generationHistory s) (ui_generationHistory (handle ev s)) \<and>
      length (ui_generationHistory (handle ev s)) \<le> length (ui_generationHistory s) + 1"
  proof (cases "\<forall>ai now. ev \<noteq> ClickGenerate ai now")
    case True
    then show ?thesis by (simp add: other)
  next
    case False
    then obtain ai' now' where "ev = ClickGenerate ai' now'" by blast
    then show ?thesis
      by (simp add: handleGenerate_history split: action_result.splits)
  qed
  from other pre show ?thesis
    by (simp add: handleGenerate_history)
qed


theorem history_is_append_only_witness:
  "ui_generationHistory (handleGenerate (\<lambda>i req. Inr \<lparr>res_media = Some ''data:image/png;base64,AAAA'', res_text = [], res_output_text = None\<rparr>) 1700000000000
      (initial_state\<lparr>ui_optimizedPrompt := ''a red car''\<rparr>)) =
     [\<lparr>h_prompt = ''a red car'', h_image = ''data:image/png;base64,AAAA'',
       h_timestamp = 1700000000000, h_aspectRatio = Ratio_1_1\<rparr>] \<and>
   ui_generationHistory (handleGenerate (\<lambda>i req. Inl (Error ''quota exceeded'')) 1700000000000
      (initial_state\<lparr>ui_optimizedPrompt := ''a red car''\<rparr>)) = [] \<and>
   ui_generationHistory (handleGenerate (\<lambda>i req. Inr \<lparr>res_media = Some ''data:image/png;base64,AAAA'', res_text = [], res_output_text = None\<rparr>) 1700000000000 initial_state) = [] \<and>
   ui_generationHistory (handle (SetPrompt ''a car'') initial_state) = []"
  using history_is_append_only
      [where s = "(initial_state\<lparr>ui_optimizedPrompt := ''a red car''\<rparr>)"
         and ai = "\<lambda>i req. Inr \<lparr>res_media = Some ''data:image/png;base64,AAAA'', res_text = [], res_output_text = None\<rparr>"
         and thumb = "''data:image/png;base64,AAAA''" and now = 1700000000000]
    history_is_append_only
      [where s = "(initial_state\<lparr>ui_optimizedPrompt := ''a red car''\<rparr>)"
         and ai = "\<lambda>i req. Inl (Error ''quota exceeded'')"
         and err = "''quota exceeded''" and now = 1700000000000]
    history_is_append_only
      [where s = initial_state and ev = "SetPrompt ''a car''" and now = 1700000000000
         and ai = "\<lambda>i req. Inr \<lparr>res_media = Some ''data:image/png;base64,AAAA'', res_text = [], res_output_text = None\<rparr>"]
  by (simp add: initial_state_def generateThumbnailAction_def generateThumbnailFromPrompt_def
      generateThumbnailFromPromptFlow_def)

end
